theory Spec2Isabelle
  imports Main "HOL-Library.Word" "HOL-Library.Sublist" "HOL-Library.List_Lexorder"
begin

section \<open>JavaScript values\<close>

text \<open>
  The storage manager is dynamically typed: notes, tasks, the knowledge graph, settings and
  the import document are plain JavaScript objects, arrays and primitives, and the code
  reads them with property access, \<open>||\<close> and \<open>===\<close>.  The embedding keeps them dynamic.
  A string is its sequence of UTF-16 code units, so that \<open>length\<close> is JavaScript's
  \<open>.length\<close> and the order on lists is JavaScript's string comparison.  Numbers are
  integers (the code only produces lengths and counts).  An object is the list of its own
  properties; property names are the identifiers of the source.
\<close>

type_synonym jsstring = "16 word list"

datatype jsval =
    Undefined
  | Null
  | Bool bool
  | Num int
  | Str jsstring
  | Arr "jsval list"
  | Obj "(string \<times> jsval) list"

datatype error =
    TypeError
  | SyntaxError
  | DataError
  | ReadOnlyError
  | Error jsstring

text \<open>
  The string literals of the source, as code units: the ASCII ones through \<open>ascii\<close>,
  the others written out.
\<close>

definition ascii :: "string \<Rightarrow> jsstring" where
  "ascii s = map (\<lambda>c. of_nat (of_char c)) s"

definition untitled_note :: jsstring where
  "untitled_note = [0x65E0, 0x6807, 0x9898, 0x7B14, 0x8BB0]"

definition new_task :: jsstring where
  "new_task = [0x65B0, 0x4EFB, 0x52A1]"

definition medium :: jsstring where
  "medium = ascii ''medium''"

definition main_graph :: jsstring where
  "main_graph = ascii ''main_graph''"

definition invalid_import_format :: jsstring where
  "invalid_import_format = [0x65E0, 0x6548, 0x7684, 0x5BFC, 0x5165, 0x6570, 0x636E, 0x683C, 0x5F0F]"

definition version_1_0 :: jsstring where
  "version_1_0 = ascii ''1.0''"

text \<open>Truthiness, as \<open>||\<close>, \<open>&&\<close>, \<open>?:\<close> and \<open>if\<close> test it.\<close>

fun truthy :: "jsval \<Rightarrow> bool" where
  "truthy Undefined = False"
| "truthy Null = False"
| "truthy (Bool b) = b"
| "truthy (Num n) = (n \<noteq> 0)"
| "truthy (Str s) = (s \<noteq> [])"
| "truthy (Arr xs) = True"
| "truthy (Obj fs) = True"

definition js_or :: "jsval \<Rightarrow> jsval \<Rightarrow> jsval" where
  "js_or a b = (if truthy a then a else b)"

fun nullish :: "jsval \<Rightarrow> bool" where
  "nullish Undefined = True"
| "nullish Null = True"
| "nullish v = False"

text \<open>
  Reading a property of a value that is neither \<open>undefined\<close> nor \<open>null\<close>: an own
  property of an object, \<open>length\<close> of an array or a string, \<open>undefined\<close> otherwise.
\<close>

fun get_prop :: "jsval \<Rightarrow> string \<Rightarrow> jsval" where
  "get_prop (Obj fs) p = (case map_of fs p of None \<Rightarrow> Undefined | Some v \<Rightarrow> v)"
| "get_prop (Arr xs) p = (if p = ''length'' then Num (int (length xs)) else Undefined)"
| "get_prop (Str s) p = (if p = ''length'' then Num (int (length s)) else Undefined)"
| "get_prop v p = Undefined"

text \<open>\<open>v.p\<close>: a TypeError on \<open>undefined\<close> and \<open>null\<close>.\<close>

definition js_get :: "jsval \<Rightarrow> string \<Rightarrow> error + jsval" where
  "js_get v p = (if nullish v then Inl TypeError else Inr (get_prop v p))"

fun obj_set :: "(string \<times> jsval) list \<Rightarrow> string \<Rightarrow> jsval \<Rightarrow> (string \<times> jsval) list" where
  "obj_set [] p v = [(p, v)]"
| "obj_set ((q, w) # fs) p v = (if q = p then (q, v) # fs else (q, w) # obj_set fs p v)"

text \<open>
  \<open>o.p = v\<close> in strict mode (a class body): a TypeError on \<open>undefined\<close>, \<open>null\<close> and
  on a primitive.  An array keeps its elements (a named property of an array is not
  part of this model of values).
\<close>

fun js_set :: "jsval \<Rightarrow> string \<Rightarrow> jsval \<Rightarrow> error + jsval" where
  "js_set (Obj fs) p v = Inr (Obj (obj_set fs p v))"
| "js_set (Arr xs) p v = Inr (Arr xs)"
| "js_set w p v = Inl TypeError"

text \<open>
  \<open>a === b\<close>: primitives by value; an object or an array only with itself, and the
  values compared here come from different places (a stored record and an argument).
\<close>

fun strict_eq :: "jsval \<Rightarrow> jsval \<Rightarrow> bool" where
  "strict_eq (Arr xs) b = False"
| "strict_eq (Obj fs) b = False"
| "strict_eq a b = (a = b)"

text \<open>\<open>Array.prototype.find\<close>, \<open>filter\<close> and \<open>some\<close> with a callback that may throw.\<close>

fun find_first :: "(jsval \<Rightarrow> error + bool) \<Rightarrow> jsval list \<Rightarrow> error + jsval" where
  "find_first f [] = Inr Undefined"
| "find_first f (x # xs) =
     (case f x of Inl e \<Rightarrow> Inl e
      | Inr b \<Rightarrow> if b then Inr x else find_first f xs)"

fun filter_all :: "(jsval \<Rightarrow> error + bool) \<Rightarrow> jsval list \<Rightarrow> error + jsval list" where
  "filter_all f [] = Inr []"
| "filter_all f (x # xs) =
     (case f x of Inl e \<Rightarrow> Inl e
      | Inr b \<Rightarrow>
          (case filter_all f xs of Inl e \<Rightarrow> Inl e
           | Inr ys \<Rightarrow> Inr (if b then x # ys else ys)))"

fun some_elem :: "(jsval \<Rightarrow> error + bool) \<Rightarrow> jsval list \<Rightarrow> error + bool" where
  "some_elem f [] = Inr False"
| "some_elem f (x # xs) =
     (case f x of Inl e \<Rightarrow> Inl e
      | Inr b \<Rightarrow> if b then Inr True else some_elem f xs)"

text \<open>
  \<open>a.find(f)\<close>, \<open>a.filter(f)\<close>, \<open>a.some(f)\<close>: only an array has these methods;
  on anything else the call is a TypeError.
\<close>

definition js_find :: "jsval \<Rightarrow> (jsval \<Rightarrow> error + bool) \<Rightarrow> error + jsval" where
  "js_find a f = (case a of Arr xs \<Rightarrow> find_first f xs | _ \<Rightarrow> Inl TypeError)"

definition js_filter :: "jsval \<Rightarrow> (jsval \<Rightarrow> error + bool) \<Rightarrow> error + jsval" where
  "js_filter a f =
     (case a of
        Arr xs \<Rightarrow> (case filter_all f xs of Inl e \<Rightarrow> Inl e | Inr ys \<Rightarrow> Inr (Arr ys))
      | _ \<Rightarrow> Inl TypeError)"

definition js_some :: "jsval \<Rightarrow> (jsval \<Rightarrow> error + bool) \<Rightarrow> error + bool" where
  "js_some a f = (case a of Arr xs \<Rightarrow> some_elem f xs | _ \<Rightarrow> Inl TypeError)"

text \<open>
  \<open>s.toLowerCase()\<close>: only a string has the method.  The Unicode case mapping is the
  platform's; it is the parameter \<open>lower\<close>.
\<close>

definition js_toLowerCase :: "(jsstring \<Rightarrow> jsstring) \<Rightarrow> jsval \<Rightarrow> error + jsstring" where
  "js_toLowerCase lower v = (case v of Str s \<Rightarrow> Inr (lower s) | _ \<Rightarrow> Inl TypeError)"

text \<open>\<open>s.includes(t)\<close> on strings: \<open>t\<close> occurs in \<open>s\<close> at some position.\<close>

fun starts_with :: "jsstring \<Rightarrow> jsstring \<Rightarrow> bool" where
  "starts_with s [] = True"
| "starts_with [] (c # t) = False"
| "starts_with (d # s) (c # t) = (d = c \<and> starts_with s t)"

fun js_includes :: "jsstring \<Rightarrow> jsstring \<Rightarrow> bool" where
  "js_includes [] t = (t = [])"
| "js_includes (d # s) t = (starts_with (d # s) t \<or> js_includes s t)"

section \<open>The two storage engines\<close>

subsection \<open>IndexedDB object stores\<close>

text \<open>
  An object store with a key path holds records in ascending key order, one per key.
  A valid key is a number, a string or an array of valid keys (dates and binary keys
  are not among the values here); numbers come before strings, strings before arrays,
  strings compare by code units.  A failure of the engine itself (quota exceeded, an
  aborted transaction) is outside the model: a request fails only by the exception
  that the method call throws.
\<close>

type_synonym objstore = "(jsval \<times> jsval) list"

fun valid_key :: "jsval \<Rightarrow> bool" where
  "valid_key (Num n) = True"
| "valid_key (Str s) = True"
| "valid_key (Arr xs) = list_all valid_key xs"
| "valid_key v = False"

function (sequential) key_less :: "jsval \<Rightarrow> jsval \<Rightarrow> bool"
  and keys_less :: "jsval list \<Rightarrow> jsval list \<Rightarrow> bool" where
  "key_less (Num a) (Num b) = (a < b)"
| "key_less (Num a) (Str b) = True"
| "key_less (Num a) (Arr b) = True"
| "key_less (Str a) (Str b) = (a < b)"
| "key_less (Str a) (Arr b) = True"
| "key_less (Arr a) (Arr b) = keys_less a b"
| "key_less v w = False"
| "keys_less [] [] = False"
| "keys_less [] (y # ys) = True"
| "keys_less (x # xs) [] = False"
| "keys_less (x # xs) (y # ys) = (key_less x y \<or> (\<not> key_less y x \<and> keys_less xs ys))"
  by pat_completeness auto
termination
  by (relation "measure (\<lambda>p. case p of
         Inl (a, b) \<Rightarrow> size a + size b
       | Inr (xs, ys) \<Rightarrow> size_list size xs + size_list size ys)") auto

definition idb_delete :: "jsval \<Rightarrow> objstore \<Rightarrow> objstore" where
  "idb_delete k xs = filter (\<lambda>kv. fst kv \<noteq> k) xs"

fun insert_sorted :: "jsval \<Rightarrow> jsval \<Rightarrow> objstore \<Rightarrow> objstore" where
  "insert_sorted k v [] = [(k, v)]"
| "insert_sorted k v (kv # xs) =
     (if key_less k (fst kv) then (k, v) # kv # xs
      else kv # insert_sorted k v xs)"

text \<open>\<open>put\<close> replaces the record stored under the key, if there is one.\<close>

definition idb_put :: "jsval \<Rightarrow> jsval \<Rightarrow> objstore \<Rightarrow> objstore" where
  "idb_put k v xs = insert_sorted k v (idb_delete k xs)"

definition idb_lookup :: "objstore \<Rightarrow> jsval \<Rightarrow> jsval" where
  "idb_lookup xs k = (case map_of xs k of None \<Rightarrow> Undefined | Some v \<Rightarrow> v)"

text \<open>The key paths declared in \<open>openDatabase\<close>: \<open>key\<close> for settings, \<open>id\<close> for the rest.\<close>

definition keyPath :: "string \<Rightarrow> string" where
  "keyPath storeName = (if storeName = ''settings'' then ''key'' else ''id'')"

type_synonym idb = "string \<Rightarrow> objstore"

subsection \<open>localStorage\<close>

text \<open>
  localStorage maps a key to a text.  The code reads a text only through
  \<open>JSON.parse(text || '[]')\<close> and writes only \<open>JSON.stringify(value)\<close>, so a text
  is kept as what it is to \<open>JSON.parse\<close>: the empty text, a JSON text (kept as the value
  it denotes), or a text that does not parse.
\<close>

datatype stored_text = EmptyText | JsonText jsval | BadText

type_synonym local_storage = "string \<rightharpoonup> stored_text"

text \<open>
  What \<open>JSON.parse(JSON.stringify(v))\<close> gives back: a property whose value is
  \<open>undefined\<close> is left out, an \<open>undefined\<close> array element becomes \<open>null\<close>.
\<close>

fun json_copy :: "jsval \<Rightarrow> jsval"
  and json_copy_elems :: "jsval list \<Rightarrow> jsval list"
  and json_copy_props :: "(string \<times> jsval) list \<Rightarrow> (string \<times> jsval) list" where
  "json_copy (Arr xs) = Arr (json_copy_elems xs)"
| "json_copy (Obj fs) = Obj (json_copy_props fs)"
| "json_copy Undefined = Undefined"
| "json_copy Null = Null"
| "json_copy (Bool b) = Bool b"
| "json_copy (Num n) = Num n"
| "json_copy (Str s) = Str s"
| "json_copy_elems [] = []"
| "json_copy_elems (x # xs) =
     (if x = Undefined then Null else json_copy x) # json_copy_elems xs"
| "json_copy_props [] = []"
| "json_copy_props ((p, v) # fs) =
     (if v = Undefined then json_copy_props fs else (p, json_copy v) # json_copy_props fs)"

text \<open>
  \<open>JSON.stringify(undefined)\<close> is \<open>undefined\<close>, which \<open>setItem\<close> would store as the
  text \<open>undefined\<close>; that text does not parse.
\<close>

definition stringify :: "jsval \<Rightarrow> stored_text" where
  "stringify v = (if v = Undefined then BadText else JsonText (json_copy v))"

text \<open>\<open>JSON.parse(localStorage.getItem(name) || '[]')\<close>\<close>

definition parse_item :: "local_storage \<Rightarrow> string \<Rightarrow> error + jsval" where
  "parse_item ls name =
     (case ls name of
        None \<Rightarrow> Inr (Arr [])
      | Some EmptyText \<Rightarrow> Inr (Arr [])
      | Some (JsonText v) \<Rightarrow> Inr v
      | Some BadText \<Rightarrow> Inl SyntaxError)"

subsection \<open>The handle an operation receives\<close>

text \<open>
  \<open>performTransaction\<close> passes its callback an IDBObjectStore (with its key path,
  whether the transaction is \<open>readwrite\<close>, and its records); \<open>performLocalStorageOperation\<close>
  passes the plain object \<open>{ data }\<close>.  A method of an object store returns a request,
  which carries its result and the records after it; the plain object has no methods,
  so calling one is a TypeError.
\<close>

datatype store = ObjectStore string bool objstore | PlainObject jsval

datatype opresult = Request jsval objstore | Value jsval

fun store_data :: "store \<Rightarrow> jsval" where
  "store_data (PlainObject d) = d"
| "store_data (ObjectStore kp rw xs) = Undefined"

fun store_put :: "store \<Rightarrow> jsval \<Rightarrow> error + opresult" where
  "store_put (PlainObject d) v = Inl TypeError"
| "store_put (ObjectStore kp rw xs) v =
     (if \<not> rw then Inl ReadOnlyError
      else if \<not> valid_key (get_prop v kp) then Inl DataError
      else Inr (Request (get_prop v kp) (idb_put (get_prop v kp) v xs)))"

fun store_get :: "store \<Rightarrow> jsval \<Rightarrow> error + opresult" where
  "store_get (PlainObject d) k = Inl TypeError"
| "store_get (ObjectStore kp rw xs) k =
     (if \<not> valid_key k then Inl DataError else Inr (Request (idb_lookup xs k) xs))"

fun store_getAll :: "store \<Rightarrow> error + opresult" where
  "store_getAll (PlainObject d) = Inl TypeError"
| "store_getAll (ObjectStore kp rw xs) = Inr (Request (Arr (map snd xs)) xs)"

fun store_delete :: "store \<Rightarrow> jsval \<Rightarrow> error + opresult" where
  "store_delete (PlainObject d) k = Inl TypeError"
| "store_delete (ObjectStore kp rw xs) k =
     (if \<not> rw then Inl ReadOnlyError
      else if \<not> valid_key k then Inl DataError
      else Inr (Request Undefined (idb_delete k xs)))"

fun store_clear :: "store \<Rightarrow> error + opresult" where
  "store_clear (PlainObject d) = Inl TypeError"
| "store_clear (ObjectStore kp rw xs) =
     (if \<not> rw then Inl ReadOnlyError else Inr (Request Undefined []))"

section \<open>The storage manager\<close>

text \<open>
  The state of a \<open>StorageManager\<close> and of what it reaches: its flag \<open>useLocalStorage\<close>,
  its database handle \<open>db\<close> (\<open>null\<close> until \<open>init\<close> has opened it), localStorage, and
  the two sources of values the code does not compute: the successive results of
  \<open>new Date().toISOString()\<close> and of \<open>generateId()\<close>, each with the number of
  readings taken so far.
\<close>

record world =
  useLocalStorage :: bool
  db :: "idb option"
  localStorage :: local_storage
  clock :: "nat \<Rightarrow> jsstring"
  ticks :: nat
  idsrc :: "nat \<Rightarrow> jsstring"
  idn :: nat

text \<open>An async method either resolves with a value or rejects with an error.\<close>

type_synonym 'a promise = "world \<Rightarrow> (error + 'a) \<times> world"

definition resolve :: "'a \<Rightarrow> 'a promise" where
  "resolve v st = (Inr v, st)"

definition reject :: "error \<Rightarrow> 'a promise" where
  "reject e st = (Inl e, st)"

definition await :: "'a promise \<Rightarrow> ('a \<Rightarrow> 'b promise) \<Rightarrow> 'b promise" where
  "await m f st = (case m st of (Inl e, st') \<Rightarrow> (Inl e, st') | (Inr v, st') \<Rightarrow> f v st')"

definition generateId :: "world \<Rightarrow> jsval \<times> world" where
  "generateId st = (Str (idsrc st (idn st)), st\<lparr>idn := Suc (idn st)\<rparr>)"

definition toISOString_now :: "world \<Rightarrow> jsval \<times> world" where
  "toISOString_now st = (Str (clock st (ticks st)), st\<lparr>ticks := Suc (ticks st)\<rparr>)"

text \<open>\<open>a || f()\<close> where \<open>f\<close> reads one of the two sources: \<open>f\<close> runs only if \<open>a\<close> is falsy.\<close>

definition or_else :: "jsval \<Rightarrow> (world \<Rightarrow> jsval \<times> world) \<Rightarrow> world \<Rightarrow> jsval \<times> world" where
  "or_else a f st = (if truthy a then (a, st) else f st)"

text \<open>
  A callback gets the handle and may touch localStorage itself (\<open>deleteNote\<close> and
  \<open>clearAllData\<close> do); it throws, or returns a request or a plain value.  A request
  only comes from a method of an object store, so the fallback never sees one; that
  case of \<open>performLocalStorageOperation\<close> is there for totality.  In
  \<open>performTransaction\<close> a value that is not a request gets no result: the promise
  resolves with \<open>undefined\<close> when the transaction completes, unless the value is a truthy
  primitive, on which setting \<open>onsuccess\<close> throws.
\<close>

type_synonym operation = "store \<Rightarrow> local_storage \<Rightarrow> (error + opresult) \<times> local_storage"

definition performLocalStorageOperation :: "string \<Rightarrow> operation \<Rightarrow> jsval promise" where
  "performLocalStorageOperation storeName operation st =
     (case parse_item (localStorage st) storeName of
        Inl e \<Rightarrow> (Inl e, st)
      | Inr data \<Rightarrow>
          (case operation (PlainObject data) (localStorage st) of
             (Inl e, ls) \<Rightarrow> (Inl e, st\<lparr>localStorage := ls\<rparr>)
           | (Inr (Value result), ls) \<Rightarrow>
               (Inr result,
                st\<lparr>localStorage :=
                     (if result \<noteq> Undefined then ls(storeName \<mapsto> stringify result) else ls)\<rparr>)
           | (Inr (Request r xs), ls) \<Rightarrow> (Inl TypeError, st\<lparr>localStorage := ls\<rparr>)))"

definition performTransaction :: "string \<Rightarrow> bool \<Rightarrow> operation \<Rightarrow> jsval promise" where
  "performTransaction storeName readwrite operation st =
     (if useLocalStorage st then performLocalStorageOperation storeName operation st
      else
        (case db st of
           None \<Rightarrow> (Inl TypeError, st)
         | Some d \<Rightarrow>
             (case operation (ObjectStore (keyPath storeName) readwrite (d storeName))
                     (localStorage st) of
                (Inl e, ls) \<Rightarrow> (Inl e, st\<lparr>localStorage := ls\<rparr>)
              | (Inr (Request result xs), ls) \<Rightarrow>
                  (Inr result, st\<lparr>db := Some (d(storeName := xs)), localStorage := ls\<rparr>)
              | (Inr (Value v), ls) \<Rightarrow>
                  (if truthy v
                   then (case js_set v ''onsuccess'' Undefined of
                           Inl e \<Rightarrow> Inl e | Inr w \<Rightarrow> Inr Undefined)
                   else Inr Undefined, st\<lparr>localStorage := ls\<rparr>))))"

definition settle :: "error + 'a \<Rightarrow> 'a promise" where
  "settle r st = (r, st)"

text \<open>The callbacks \<open>item => item.p === v\<close> and \<open>item => item.p !== v\<close>.\<close>

definition prop_is :: "string \<Rightarrow> jsval \<Rightarrow> jsval \<Rightarrow> error + bool" where
  "prop_is p v item = (case js_get item p of Inl e \<Rightarrow> Inl e | Inr w \<Rightarrow> Inr (strict_eq w v))"

definition prop_is_not :: "string \<Rightarrow> jsval \<Rightarrow> jsval \<Rightarrow> error + bool" where
  "prop_is_not p v item =
     (case js_get item p of Inl e \<Rightarrow> Inl e | Inr w \<Rightarrow> Inr (\<not> strict_eq w v))"

subsection \<open>Notes\<close>

text \<open>The object literal \<open>noteData\<close> of \<open>saveNote\<close>, given the id and the two timestamps.\<close>

definition noteData :: "jsval \<Rightarrow> jsval \<Rightarrow> jsval \<Rightarrow> jsval \<Rightarrow> jsval" where
  "noteData note ident createdAt updatedAt =
     Obj [(''id'', ident),
          (''title'', js_or (get_prop note ''title'') (Str untitled_note)),
          (''content'', js_or (get_prop note ''content'') (Str [])),
          (''tags'', js_or (get_prop note ''tags'') (Arr [])),
          (''createdAt'', createdAt),
          (''updatedAt'', updatedAt),
          (''wordCount'',
             if truthy (get_prop note ''content'')
             then get_prop (get_prop note ''content'') ''length'' else Num 0)]"

definition saveNote :: "jsval \<Rightarrow> jsval promise" where
  "saveNote note st =
     (if nullish note then (Inl TypeError, st)
      else
        (case or_else (get_prop note ''id'') generateId st of (ident, st1) \<Rightarrow>
         case or_else (get_prop note ''createdAt'') toISOString_now st1 of (createdAt, st2) \<Rightarrow>
         case toISOString_now st2 of (updatedAt, st3) \<Rightarrow>
           await
             (performTransaction ''notes'' True
                (\<lambda>store ls. (store_put store (noteData note ident createdAt updatedAt), ls)))
             (\<lambda>r. resolve (noteData note ident createdAt updatedAt)) st3))"

definition getNotes :: "jsval promise" where
  "getNotes st =
     performTransaction ''notes'' False
       (\<lambda>store ls.
          (if useLocalStorage st then Inr (Value (js_or (store_data store) (Arr [])))
           else store_getAll store, ls)) st"

definition getNote :: "jsval \<Rightarrow> jsval promise" where
  "getNote ident st =
     performTransaction ''notes'' False
       (\<lambda>store ls.
          (if useLocalStorage st
           then map_sum (\<lambda>e. e) Value (js_find (store_data store) (prop_is ''id'' ident))
           else store_get store ident, ls)) st"

definition deleteNote :: "jsval \<Rightarrow> jsval promise" where
  "deleteNote ident st =
     await
       (performTransaction ''notes'' True
          (\<lambda>store ls.
             if useLocalStorage st
             then (case js_filter (store_data store) (prop_is_not ''id'' ident) of
                     Inl e \<Rightarrow> (Inl e, ls)
                   | Inr filtered \<Rightarrow>
                       (Inr (Value filtered), ls(''notes'' \<mapsto> stringify filtered)))
             else (store_delete store ident, ls)))
       (\<lambda>r. resolve Undefined) st"

text \<open>
  The filter callback of \<open>searchNotes\<close>.  \<open>||\<close> stops at the first operand that is
  true, so the content is only read when the title does not match, and the tags only
  when neither does.
\<close>

definition tag_matches :: "(jsstring \<Rightarrow> jsstring) \<Rightarrow> jsstring \<Rightarrow> jsval \<Rightarrow> error + bool" where
  "tag_matches lower searchTerm tag =
     (case js_toLowerCase lower tag of
        Inl e \<Rightarrow> Inl e
      | Inr g \<Rightarrow> Inr (js_includes g searchTerm))"

definition note_matches :: "(jsstring \<Rightarrow> jsstring) \<Rightarrow> jsstring \<Rightarrow> jsval \<Rightarrow> error + bool" where
  "note_matches lower searchTerm note =
     (case js_get note ''title'' of
        Inl e \<Rightarrow> Inl e
      | Inr title \<Rightarrow>
          (case js_toLowerCase lower title of
             Inl e \<Rightarrow> Inl e
           | Inr t \<Rightarrow>
               if js_includes t searchTerm then Inr True
               else
                 (case js_toLowerCase lower (get_prop note ''content'') of
                    Inl e \<Rightarrow> Inl e
                  | Inr c \<Rightarrow>
                      if js_includes c searchTerm then Inr True
                      else js_some (get_prop note ''tags'') (tag_matches lower searchTerm))))"

definition searchNotes :: "(jsstring \<Rightarrow> jsstring) \<Rightarrow> jsval \<Rightarrow> jsval promise" where
  "searchNotes lower query =
     await getNotes
       (\<lambda>notes.
          await (settle (js_toLowerCase lower query))
            (\<lambda>searchTerm. settle (js_filter notes (note_matches lower searchTerm))))"

subsection \<open>Tasks\<close>

definition taskData :: "jsval \<Rightarrow> jsval \<Rightarrow> jsval \<Rightarrow> jsval \<Rightarrow> jsval" where
  "taskData task ident createdAt updatedAt =
     Obj [(''id'', ident),
          (''title'', js_or (get_prop task ''title'') (Str new_task)),
          (''description'', js_or (get_prop task ''description'') (Str [])),
          (''priority'', js_or (get_prop task ''priority'') (Str medium)),
          (''completed'', js_or (get_prop task ''completed'') (Bool False)),
          (''dueDate'', js_or (get_prop task ''dueDate'') Null),
          (''createdAt'', createdAt),
          (''updatedAt'', updatedAt),
          (''relatedNoteId'', js_or (get_prop task ''relatedNoteId'') Null)]"

definition saveTask :: "jsval \<Rightarrow> jsval promise" where
  "saveTask task st =
     (if nullish task then (Inl TypeError, st)
      else
        (case or_else (get_prop task ''id'') generateId st of (ident, st1) \<Rightarrow>
         case or_else (get_prop task ''createdAt'') toISOString_now st1 of (createdAt, st2) \<Rightarrow>
         case toISOString_now st2 of (updatedAt, st3) \<Rightarrow>
           await
             (performTransaction ''tasks'' True
                (\<lambda>store ls. (store_put store (taskData task ident createdAt updatedAt), ls)))
             (\<lambda>r. resolve (taskData task ident createdAt updatedAt)) st3))"

definition getTasks :: "jsval promise" where
  "getTasks st =
     performTransaction ''tasks'' False
       (\<lambda>store ls.
          (if useLocalStorage st then Inr (Value (js_or (store_data store) (Arr [])))
           else store_getAll store, ls)) st"

definition getTask :: "jsval \<Rightarrow> jsval promise" where
  "getTask ident st =
     performTransaction ''tasks'' False
       (\<lambda>store ls.
          (if useLocalStorage st
           then map_sum (\<lambda>e. e) Value (js_find (store_data store) (prop_is ''id'' ident))
           else store_get store ident, ls)) st"

definition deleteTask :: "jsval \<Rightarrow> jsval promise" where
  "deleteTask ident st =
     await
       (performTransaction ''tasks'' True
          (\<lambda>store ls.
             if useLocalStorage st
             then (case js_filter (store_data store) (prop_is_not ''id'' ident) of
                     Inl e \<Rightarrow> (Inl e, ls)
                   | Inr filtered \<Rightarrow>
                       (Inr (Value filtered), ls(''tasks'' \<mapsto> stringify filtered)))
             else (store_delete store ident, ls)))
       (\<lambda>r. resolve Undefined) st"

definition updateTaskStatus :: "jsval \<Rightarrow> jsval \<Rightarrow> jsval promise" where
  "updateTaskStatus ident completed =
     await (getTask ident)
       (\<lambda>task.
          if truthy task
          then await (settle (js_set task ''completed'' completed))
                 (\<lambda>task1 st.
                    case toISOString_now st of (now, st1) \<Rightarrow>
                      await (settle (js_set task1 ''updatedAt'' now))
                        (\<lambda>task2. await (saveTask task2) (\<lambda>r. resolve task2)) st1)
          else resolve task)"

subsection \<open>Knowledge graph and settings\<close>

definition empty_graph :: jsval where
  "empty_graph = Obj [(''nodes'', Arr []), (''links'', Arr [])]"

definition graphRecord :: "jsval \<Rightarrow> jsval \<Rightarrow> jsval" where
  "graphRecord graphData updatedAt =
     Obj [(''id'', Str main_graph),
          (''nodes'', js_or (get_prop graphData ''nodes'') (Arr [])),
          (''links'', js_or (get_prop graphData ''links'') (Arr [])),
          (''updatedAt'', updatedAt)]"

definition saveKnowledgeGraph :: "jsval \<Rightarrow> jsval promise" where
  "saveKnowledgeGraph graphData st =
     (if nullish graphData then (Inl TypeError, st)
      else
        (case toISOString_now st of (updatedAt, st1) \<Rightarrow>
           await
             (performTransaction ''knowledge_graph'' True
                (\<lambda>store ls. (store_put store (graphRecord graphData updatedAt), ls)))
             (\<lambda>r. resolve (graphRecord graphData updatedAt)) st1))"

definition getKnowledgeGraph :: "jsval promise" where
  "getKnowledgeGraph st =
     performTransaction ''knowledge_graph'' False
       (\<lambda>store ls.
          (if useLocalStorage st
           then map_sum (\<lambda>e. e) (\<lambda>found. Value (js_or found empty_graph))
                  (js_find (store_data store) (prop_is ''id'' (Str main_graph)))
           else store_get store (Str main_graph), ls)) st"

definition settingRecord :: "jsval \<Rightarrow> jsval \<Rightarrow> jsval \<Rightarrow> jsval" where
  "settingRecord key val updatedAt =
     Obj [(''key'', key), (''value'', val), (''updatedAt'', updatedAt)]"

definition saveSetting :: "jsval \<Rightarrow> jsval \<Rightarrow> jsval promise" where
  "saveSetting key val st =
     (case toISOString_now st of (updatedAt, st1) \<Rightarrow>
        await
          (performTransaction ''settings'' True
             (\<lambda>store ls. (store_put store (settingRecord key val updatedAt), ls)))
          (\<lambda>r. resolve (settingRecord key val updatedAt)) st1)"

text \<open>The parameter \<open>defaultValue = null\<close>: \<open>null\<close> replaces an \<open>undefined\<close> argument.\<close>

definition getSetting :: "jsval \<Rightarrow> jsval \<Rightarrow> jsval promise" where
  "getSetting key defaultValue st =
     await
       (performTransaction ''settings'' False
          (\<lambda>store ls.
             (if useLocalStorage st
              then map_sum (\<lambda>e. e) Value (js_find (store_data store) (prop_is ''key'' key))
              else store_get store key, ls)))
       (\<lambda>setting.
          resolve (if truthy setting then get_prop setting ''value''
                   else if defaultValue = Undefined then Null else defaultValue)) st"

definition getAllSettings :: "jsval promise" where
  "getAllSettings st =
     performTransaction ''settings'' False
       (\<lambda>store ls.
          (if useLocalStorage st then Inr (Value (js_or (store_data store) (Arr [])))
           else store_getAll store, ls)) st"

subsection \<open>Export, import, clear\<close>

text \<open>
  \<open>Promise.all\<close> starts the four reads in order; each runs whatever the others do, and
  the first rejection (in that order) is the outcome.
\<close>

definition exportData :: "jsval promise" where
  "exportData st =
     (case getNotes st of (r1, st1) \<Rightarrow>
     (case getTasks st1 of (r2, st2) \<Rightarrow>
     (case getKnowledgeGraph st2 of (r3, st3) \<Rightarrow>
     (case getAllSettings st3 of (r4, st4) \<Rightarrow>
     (case r1 of Inl e \<Rightarrow> (Inl e, st4) | Inr notes \<Rightarrow>
     (case r2 of Inl e \<Rightarrow> (Inl e, st4) | Inr tasks \<Rightarrow>
     (case r3 of Inl e \<Rightarrow> (Inl e, st4) | Inr knowledgeGraph \<Rightarrow>
     (case r4 of Inl e \<Rightarrow> (Inl e, st4) | Inr settings \<Rightarrow>
     (case toISOString_now st4 of (exportDate, st5) \<Rightarrow>
        (Inr (Obj [(''version'', Str version_1_0),
                   (''exportDate'', exportDate),
                   (''data'', Obj [(''notes'', notes),
                                   (''tasks'', tasks),
                                   (''knowledgeGraph'', knowledgeGraph),
                                   (''settings'', settings)])]), st5))))))))))"

text \<open>A \<open>for (const x of xs) { await f(x); }\<close> loop: the first rejection ends it.\<close>

fun for_each :: "('a \<Rightarrow> jsval promise) \<Rightarrow> 'a list \<Rightarrow> jsval promise" where
  "for_each f [] st = (Inr Undefined, st)"
| "for_each f (x # xs) st =
     (case f x st of
        (Inl e, st') \<Rightarrow> (Inl e, st')
      | (Inr r, st') \<Rightarrow> for_each f xs st')"

text \<open>\<open>if (xs && Array.isArray(xs)) { for (const x of xs) await f(x); }\<close>\<close>

definition for_each_if_array :: "(jsval \<Rightarrow> jsval promise) \<Rightarrow> jsval \<Rightarrow> jsval promise" where
  "for_each_if_array f v = (case v of Arr xs \<Rightarrow> for_each f xs | _ \<Rightarrow> resolve Undefined)"

text \<open>The body of the settings loop: \<open>await this.saveSetting(setting.key, setting.value)\<close>.\<close>

definition importSetting :: "jsval \<Rightarrow> jsval promise" where
  "importSetting setting =
     (if nullish setting then reject TypeError
      else saveSetting (get_prop setting ''key'') (get_prop setting ''value''))"

definition importData :: "jsval \<Rightarrow> jsval promise" where
  "importData doc =
     (if nullish doc then reject TypeError
      else if \<not> truthy (get_prop doc ''data'') then reject (Error invalid_import_format)
      else
        await (for_each_if_array saveNote (get_prop (get_prop doc ''data'') ''notes''))
          (\<lambda>r1. await (for_each_if_array saveTask (get_prop (get_prop doc ''data'') ''tasks''))
          (\<lambda>r2. await
                   (if truthy (get_prop (get_prop doc ''data'') ''knowledgeGraph'')
                    then saveKnowledgeGraph (get_prop (get_prop doc ''data'') ''knowledgeGraph'')
                    else resolve Undefined)
          (\<lambda>r3. await
                   (for_each_if_array importSetting
                      (get_prop (get_prop doc ''data'') ''settings''))
          (\<lambda>r4. resolve (Bool True))))))"

definition clearStore :: "string \<Rightarrow> jsval promise" where
  "clearStore storeName st =
     performTransaction storeName True
       (\<lambda>store ls.
          if useLocalStorage st then (Inr (Value (Arr [])), ls(storeName := None))
          else (store_clear store, ls)) st"

definition clearAllData :: "jsval promise" where
  "clearAllData =
     for_each clearStore [''notes'', ''tasks'', ''knowledge_graph'', ''settings'']"

section \<open>Collections, scenarios and sample states\<close>

text \<open>
  The records of a collection as the active engine holds them: the values of the object
  store, or the array that the localStorage text denotes.
\<close>

definition stored :: "string \<Rightarrow> world \<Rightarrow> jsval list option" where
  "stored name st =
     (if useLocalStorage st
      then (case parse_item (localStorage st) name of Inr (Arr xs) \<Rightarrow> Some xs | _ \<Rightarrow> None)
      else map_option (\<lambda>d. map snd (d name)) (db st))"

text \<open>
  What the engines themselves guarantee of a collection.  An object store holds one
  record per key, and the key is the valid key found at the key path of the record.
  A JSON text denotes a value without \<open>undefined\<close>, which \<open>JSON.stringify\<close> gives back.
\<close>

definition is_json :: "jsval \<Rightarrow> bool" where
  "is_json v = (v \<noteq> Undefined \<and> json_copy v = v)"

definition store_ok :: "string \<Rightarrow> objstore \<Rightarrow> bool" where
  "store_ok kp xs =
     (distinct (map fst xs) \<and> list_all (\<lambda>kv. valid_key (fst kv) \<and> get_prop (snd kv) kp = fst kv) xs)"

definition well_formed :: "string \<Rightarrow> world \<Rightarrow> bool" where
  "well_formed name st =
     (if useLocalStorage st
      then (case localStorage st name of Some (JsonText v) \<Rightarrow> is_json v | _ \<Rightarrow> True)
      else (case db st of None \<Rightarrow> False | Some d \<Rightarrow> store_ok (keyPath name) (d name)))"

text \<open>
  Sample values of the two sources, and the two states of a fresh profile.  The sample
  clock advances by a millisecond at every reading, the slow clock at every third
  reading, the frozen clock never.
\<close>

definition sample_clock :: "nat \<Rightarrow> jsstring" where
  "sample_clock n =
     ascii ''2026-11-03T10:00:00.''
     @ [0x30 + of_nat (n div 100 mod 10), 0x30 + of_nat (n div 10 mod 10), 0x30 + of_nat (n mod 10)]
     @ ascii ''Z''"

definition slow_clock :: "nat \<Rightarrow> jsstring" where
  "slow_clock n = sample_clock (n div 3)"

definition frozen_clock :: "nat \<Rightarrow> jsstring" where
  "frozen_clock n = ascii ''2026-11-03T10:00:00.000Z''"

definition sample_ids :: "nat \<Rightarrow> jsstring" where
  "sample_ids n = ascii ''mhjk2x9q'' @ replicate n 0x7A"

definition structured_state :: world where
  "structured_state =
     \<lparr>useLocalStorage = False, db = Some (\<lambda>storeName. []), localStorage = Map.empty,
      clock = sample_clock, ticks = 0, idsrc = sample_ids, idn = 0\<rparr>"

definition fallback_state :: world where
  "fallback_state =
     \<lparr>useLocalStorage = True, db = None, localStorage = Map.empty,
      clock = sample_clock, ticks = 0, idsrc = sample_ids, idn = 0\<rparr>"

definition sample_note :: jsval where
  "sample_note = Obj [(''title'', Str (ascii ''Alpha'')), (''content'', Str (ascii ''about cats''))]"

definition sample_task :: jsval where
  "sample_task = Obj [(''title'', Str (ascii ''Read'')), (''priority'', Str (ascii ''high''))]"

definition stale_fallback_state :: world where
  "stale_fallback_state =
     fallback_state\<lparr>localStorage :=
       [''notes'' \<mapsto> JsonText (Arr [Obj [(''id'', Str (ascii ''n1'')), (''title'', Str (ascii ''Alpha''))],
                                    Obj [(''id'', Str (ascii ''n2'')), (''title'', Str (ascii ''Beta''))]]),
        ''settings'' \<mapsto> JsonText (Arr [Obj [(''key'', Str (ascii ''theme'')),
                                            (''value'', Str (ascii ''dark''))]])]\<rparr>"

text \<open>\<open>saveNote(N)\<close> followed by \<open>getNote\<close> on the id of the saved record.\<close>

definition saved_then_read :: "jsval \<Rightarrow> world \<Rightarrow> error + jsval" where
  "saved_then_read note st =
     (case saveNote note st of
        (Inl e, st1) \<Rightarrow> Inl e
      | (Inr saved, st1) \<Rightarrow> fst (getNote (get_prop saved ''id'') st1))"

text \<open>
  \<open>saveTask(T)\<close>, then \<open>updateTaskStatus(id, true)\<close>, then \<open>getTask(id)\<close>, with the id
  of the saved record: the record as first saved and the record read at the end.
\<close>

definition status_change :: "jsval \<Rightarrow> world \<Rightarrow> error + jsval \<times> jsval" where
  "status_change task st =
     (case saveTask task st of
        (Inl e, st1) \<Rightarrow> Inl e
      | (Inr saved, st1) \<Rightarrow>
          (case updateTaskStatus (get_prop saved ''id'') (Bool True) st1 of
             (Inl e, st2) \<Rightarrow> Inl e
           | (Inr updated, st2) \<Rightarrow>
               (case getTask (get_prop saved ''id'') st2 of
                  (Inl e, st3) \<Rightarrow> Inl e
                | (Inr r, st3) \<Rightarrow> Inr (saved, r))))"

definition updatedAt_pair :: "error + jsval \<times> jsval \<Rightarrow> error + jsval \<times> jsval" where
  "updatedAt_pair x =
     (case x of
        Inl e \<Rightarrow> Inl e
      | Inr (saved, r) \<Rightarrow> Inr (get_prop saved ''updatedAt'', get_prop r ''updatedAt''))"

text \<open>A note dated after the clock, and a state whose clock does not advance.\<close>

definition future_note :: jsval where
  "future_note =
     Obj [(''id'', Str (ascii ''n1'')), (''content'', Str (ascii ''hi'')),
          (''createdAt'', Str (ascii ''2030-01-01T00:00:00.000Z''))]"

definition frozen_state :: world where
  "frozen_state = structured_state\<lparr>clock := frozen_clock\<rparr>"

definition slow_state :: world where
  "slow_state = structured_state\<lparr>clock := slow_clock\<rparr>"

text \<open>
  Which readings of the clock become \<open>updatedAt\<close>.  \<open>saveTask(T)\<close> reads the clock once
  for \<open>createdAt\<close> when \<open>T\<close> has none, then once for \<open>updatedAt\<close>.  \<open>updateTaskStatus\<close>
  then reads it once for \<open>task.updatedAt\<close>, and its \<open>saveTask\<close> reads it again for
  \<open>updatedAt\<close> (and before that for \<open>createdAt\<close>, should the stored one be the empty
  string).
\<close>

definition save_reading :: "jsval \<Rightarrow> world \<Rightarrow> nat" where
  "save_reading task st =
     (if truthy (get_prop task ''createdAt'') then ticks st else Suc (ticks st))"

definition status_reading :: "jsval \<Rightarrow> world \<Rightarrow> nat" where
  "status_reading task st =
     (if truthy (get_prop task ''createdAt'') \<or> clock st (ticks st) \<noteq> []
      then save_reading task st + 2 else save_reading task st + 3)"

text \<open>
  The search of the specification, in its own words: the lower-cased query is a substring
  of the lower-cased title, or of the lower-cased content, or of a lower-cased tag.
  It is stated for a note as the data model has it: title and content strings, tags an
  array of strings.
\<close>

definition is_str :: "jsval \<Rightarrow> bool" where
  "is_str v = (case v of Str s \<Rightarrow> True | _ \<Rightarrow> False)"

definition str_of :: "jsval \<Rightarrow> jsstring" where
  "str_of v = (case v of Str s \<Rightarrow> s | _ \<Rightarrow> [])"

definition elems_of :: "jsval \<Rightarrow> jsval list" where
  "elems_of v = (case v of Arr xs \<Rightarrow> xs | _ \<Rightarrow> [])"

definition is_note :: "jsval \<Rightarrow> bool" where
  "is_note n =
     (is_str (get_prop n ''title'') \<and> is_str (get_prop n ''content'')
      \<and> (case get_prop n ''tags'' of Arr tags \<Rightarrow> list_all is_str tags | _ \<Rightarrow> False))"

definition search_hit :: "(jsstring \<Rightarrow> jsstring) \<Rightarrow> jsstring \<Rightarrow> jsval \<Rightarrow> bool" where
  "search_hit lower query n =
     (sublist (lower query) (lower (str_of (get_prop n ''title'')))
      \<or> sublist (lower query) (lower (str_of (get_prop n ''content'')))
      \<or> list_ex (\<lambda>tag. sublist (lower query) (lower (str_of tag)))
           (elems_of (get_prop n ''tags'')))"

text \<open>Lower-casing of the ASCII letters, as a sample of the platform's case mapping.\<close>

definition ascii_lower :: "jsstring \<Rightarrow> jsstring" where
  "ascii_lower s = map (\<lambda>c. if 0x41 \<le> c \<and> c \<le> 0x5A then c + 0x20 else c) s"

text \<open>The two notes of the specification's search example, held by either engine.\<close>

definition alpha_note :: jsval where
  "alpha_note =
     Obj [(''id'', Str (ascii ''n1'')), (''title'', Str (ascii ''Alpha'')),
          (''content'', Str (ascii ''about cats'')), (''tags'', Arr [])]"

definition beta_note :: jsval where
  "beta_note =
     Obj [(''id'', Str (ascii ''n2'')), (''title'', Str (ascii ''Beta'')),
          (''content'', Str (ascii ''about dogs'')), (''tags'', Arr [Str (ascii ''feline'')])]"

definition two_notes_structured :: world where
  "two_notes_structured =
     structured_state\<lparr>db := Some ((\<lambda>storeName. [])
       (''notes'' := [(Str (ascii ''n1''), alpha_note), (Str (ascii ''n2''), beta_note)]))\<rparr>"

definition two_notes_fallback :: world where
  "two_notes_fallback =
     fallback_state\<lparr>localStorage := [''notes'' \<mapsto> JsonText (Arr [alpha_note, beta_note])]\<rparr>"

text \<open>
  Import documents: one without \<open>data\<close>; one whose second note is \<open>null\<close>; one whose
  second task is \<open>null\<close>; one with only a knowledge graph; one whose second setting
  has \<open>null\<close> for its key; and one that is in order.
\<close>

definition no_data_doc :: jsval where
  "no_data_doc = Obj [(''version'', Str version_1_0)]"

definition broken_doc :: jsval where
  "broken_doc = Obj [(''data'', Obj [(''notes'', Arr [alpha_note, Null, beta_note])])]"

definition broken_tasks_doc :: jsval where
  "broken_tasks_doc =
     Obj [(''data'', Obj [(''notes'', Arr [alpha_note]),
                          (''tasks'', Arr [Obj [(''id'', Str (ascii ''t1''))], Null])])]"

definition graph_doc :: jsval where
  "graph_doc = Obj [(''data'', Obj [(''knowledgeGraph'', empty_graph)])]"

definition theme_setting :: jsval where
  "theme_setting = Obj [(''key'', Str (ascii ''theme'')), (''value'', Str (ascii ''dark''))]"

definition keyless_setting :: jsval where
  "keyless_setting = Obj [(''key'', Null), (''value'', Num 1)]"

definition broken_settings_doc :: jsval where
  "broken_settings_doc =
     Obj [(''data'', Obj [(''notes'', Arr [alpha_note]),
                          (''settings'', Arr [theme_setting, keyless_setting, theme_setting])])]"

definition good_doc :: jsval where
  "good_doc =
     Obj [(''data'', Obj [(''notes'', Arr [alpha_note]), (''settings'', Arr [theme_setting])])]"

text \<open>\<open>exportData()\<close>, then \<open>clearAllData()\<close>, then \<open>importData\<close> of the exported document.\<close>

definition round_trip :: "jsval promise" where
  "round_trip = await exportData (\<lambda>doc. await clearAllData (\<lambda>r. importData doc))"

text \<open>
  What the round trip is to preserve of a note and of a task, and the shape that
  \<open>saveNote\<close> and \<open>saveTask\<close> give the records they store: the id is truthy and each
  defaulted field is one that the default rule leaves as it is.
\<close>

definition note_summary :: "jsval \<Rightarrow> jsval \<times> jsval \<times> jsval \<times> jsval" where
  "note_summary n =
     (get_prop n ''id'', get_prop n ''title'', get_prop n ''content'', get_prop n ''tags'')"

definition task_summary :: "jsval \<Rightarrow> jsval \<times> jsval \<times> jsval \<times> jsval \<times> jsval \<times> jsval \<times> jsval" where
  "task_summary t =
     (get_prop t ''id'', get_prop t ''title'', get_prop t ''description'',
      get_prop t ''priority'', get_prop t ''completed'', get_prop t ''dueDate'',
      get_prop t ''relatedNoteId'')"

definition keeps :: "jsval \<Rightarrow> string \<Rightarrow> jsval \<Rightarrow> bool" where
  "keeps v p dflt = (js_or (get_prop v p) dflt = get_prop v p)"

definition saved_note :: "jsval \<Rightarrow> bool" where
  "saved_note n =
     (truthy (get_prop n ''id'') \<and> keeps n ''title'' (Str untitled_note)
      \<and> keeps n ''content'' (Str []) \<and> keeps n ''tags'' (Arr []))"

definition saved_task :: "jsval \<Rightarrow> bool" where
  "saved_task t =
     (truthy (get_prop t ''id'') \<and> keeps t ''title'' (Str new_task)
      \<and> keeps t ''description'' (Str []) \<and> keeps t ''priority'' (Str medium)
      \<and> keeps t ''completed'' (Bool False) \<and> keeps t ''dueDate'' Null
      \<and> keeps t ''relatedNoteId'' Null)"

section \<open>Properties\<close>

subsection \<open>Backend transparency\<close>

text \<open>
  C1.  Backend transparency asks that every public operation has the same outcome on
  both engines.  \<open>saveNote\<close> does not: on a fresh profile it resolves with the
  normalized note when the object store is active and rejects with a TypeError when
  the fallback is, since \<open>store.put\<close> is called on the plain object \<open>{ data }\<close>.
\<close>

theorem saveNote_outcome_depends_on_backend:
  "fst (saveNote sample_note structured_state) =
     Inr (noteData sample_note (Str (sample_ids 0)) (Str (sample_clock 0)) (Str (sample_clock 1)))
   \<and> fst (saveNote sample_note fallback_state) = Inl TypeError"
  by (simp add: saveNote_def sample_note_def structured_state_def fallback_state_def
      or_else_def generateId_def toISOString_now_def await_def resolve_def
      performTransaction_def performLocalStorageOperation_def parse_item_def
      noteData_def keyPath_def)

subsection \<open>Saving on the fallback engine\<close>

lemma performLocalStorageOperation_put:
  "performLocalStorageOperation name (\<lambda>store ls. (store_put store v, ls)) st =
     (Inl (case parse_item (localStorage st) name of Inl e \<Rightarrow> e | Inr d \<Rightarrow> TypeError), st)"
  by (simp add: performLocalStorageOperation_def split: sum.splits)

lemma parse_item_error: "parse_item ls name = Inl e \<Longrightarrow> e = SyntaxError"
  by (auto simp: parse_item_def split: option.splits stored_text.splits)

text \<open>
  C2.  With \<open>useLocalStorage\<close> set, \<open>saveNote\<close>, \<open>saveTask\<close>, \<open>saveKnowledgeGraph\<close>
  and \<open>saveSetting\<close> reject for every argument and every state: with a TypeError (the
  call of \<open>put\<close> on the plain object, or the read of a property of a \<open>null\<close>
  argument), or with the SyntaxError of a stored text that does not parse.  Neither
  localStorage nor the database is changed by the call.
\<close>

theorem fallback_saves_reject:
  assumes "useLocalStorage st"
  shows "fst (saveNote note st) \<in> {Inl TypeError, Inl SyntaxError}
       \<and> localStorage (snd (saveNote note st)) = localStorage st
       \<and> db (snd (saveNote note st)) = db st
       \<and> fst (saveTask task st) \<in> {Inl TypeError, Inl SyntaxError}
       \<and> localStorage (snd (saveTask task st)) = localStorage st
       \<and> db (snd (saveTask task st)) = db st
       \<and> fst (saveKnowledgeGraph graphData st) \<in> {Inl TypeError, Inl SyntaxError}
       \<and> localStorage (snd (saveKnowledgeGraph graphData st)) = localStorage st
       \<and> db (snd (saveKnowledgeGraph graphData st)) = db st
       \<and> fst (saveSetting key val st) \<in> {Inl TypeError, Inl SyntaxError}
       \<and> localStorage (snd (saveSetting key val st)) = localStorage st
       \<and> db (snd (saveSetting key val st)) = db st"
proof -
  have put: "performTransaction name True (\<lambda>store ls. (store_put store v, ls)) s =
      (Inl (case parse_item (localStorage s) name of Inl e \<Rightarrow> e | Inr d \<Rightarrow> TypeError), s)"
    if "useLocalStorage s" for name v s
    using that by (simp add: performTransaction_def performLocalStorageOperation_put)
  have err: "(case parse_item ls name of Inl e \<Rightarrow> e | Inr d \<Rightarrow> TypeError) \<in> {TypeError, SyntaxError}"
    for ls name
    by (auto split: sum.splits dest: parse_item_error)
  have sn: "fst (saveNote note st) \<in> {Inl TypeError, Inl SyntaxError}
       \<and> localStorage (snd (saveNote note st)) = localStorage st
       \<and> db (snd (saveNote note st)) = db st"
    using assms err [of "localStorage st" "''notes''"]
    by (simp add: saveNote_def or_else_def generateId_def toISOString_now_def await_def put
        split: prod.splits)
  have stk: "fst (saveTask task st) \<in> {Inl TypeError, Inl SyntaxError}
       \<and> localStorage (snd (saveTask task st)) = localStorage st
       \<and> db (snd (saveTask task st)) = db st"
    using assms err [of "localStorage st" "''tasks''"]
    by (simp add: saveTask_def or_else_def generateId_def toISOString_now_def await_def put
        split: prod.splits)
  have skg: "fst (saveKnowledgeGraph graphData st) \<in> {Inl TypeError, Inl SyntaxError}
       \<and> localStorage (snd (saveKnowledgeGraph graphData st)) = localStorage st
       \<and> db (snd (saveKnowledgeGraph graphData st)) = db st"
    using assms err [of "localStorage st" "''knowledge_graph''"]
    by (simp add: saveKnowledgeGraph_def toISOString_now_def await_def put split: prod.splits)
  have sst: "fst (saveSetting key val st) \<in> {Inl TypeError, Inl SyntaxError}
       \<and> localStorage (snd (saveSetting key val st)) = localStorage st
       \<and> db (snd (saveSetting key val st)) = db st"
    using assms err [of "localStorage st" "''settings''"]
    by (simp add: saveSetting_def toISOString_now_def await_def put split: prod.splits)
  from sn stk skg sst show ?thesis by blast
qed

theorem fallback_saves_reject_witness:
  "useLocalStorage fallback_state
   \<and> fst (saveNote sample_note fallback_state) \<in> {Inl TypeError, Inl SyntaxError}
   \<and> localStorage (snd (saveNote sample_note fallback_state)) = localStorage fallback_state
   \<and> fst (saveTask sample_task fallback_state) \<in> {Inl TypeError, Inl SyntaxError}
   \<and> fst (saveKnowledgeGraph empty_graph fallback_state) \<in> {Inl TypeError, Inl SyntaxError}
   \<and> fst (saveSetting (Str (ascii ''theme'')) (Str (ascii ''dark'')) fallback_state)
       \<in> {Inl TypeError, Inl SyntaxError}"
proof -
  have h: "useLocalStorage fallback_state" by (simp add: fallback_state_def)
  from fallback_saves_reject [OF h, of sample_note sample_task empty_graph
      "Str (ascii ''theme'')" "Str (ascii ''dark'')"] h
  show ?thesis by blast
qed

subsection \<open>Reading on the fallback engine\<close>

text \<open>
  C3.  With \<open>useLocalStorage\<close> set, a read that finds something writes it back as the
  whole entry: after \<open>getNote(id)\<close> has found the record \<open>r\<close> in the stored array, the
  text under \<open>notes\<close> is the JSON text of \<open>r\<close> alone; \<open>getSetting(key)\<close> does the same
  to \<open>settings\<close>; and \<open>getKnowledgeGraph\<close> stores the object it returns (the record
  found, or the empty graph) under \<open>knowledge_graph\<close>.
\<close>

theorem fallback_reads_write_back:
  assumes "useLocalStorage st"
  shows "(parse_item (localStorage st) ''notes'' = Inr (Arr xs) \<longrightarrow>
          find_first (prop_is ''id'' ident) xs = Inr r \<longrightarrow> r \<noteq> Undefined \<longrightarrow>
          getNote ident st =
            (Inr r, st\<lparr>localStorage := (localStorage st)(''notes'' \<mapsto> JsonText (json_copy r))\<rparr>))
       \<and> (parse_item (localStorage st) ''settings'' = Inr (Arr ys) \<longrightarrow>
          find_first (prop_is ''key'' key) ys = Inr s \<longrightarrow> s \<noteq> Undefined \<longrightarrow>
          getSetting key dflt st =
            (Inr (if truthy s then get_prop s ''value''
                  else if dflt = Undefined then Null else dflt),
             st\<lparr>localStorage := (localStorage st)(''settings'' \<mapsto> JsonText (json_copy s))\<rparr>))
       \<and> (parse_item (localStorage st) ''knowledge_graph'' = Inr (Arr zs) \<longrightarrow>
          find_first (prop_is ''id'' (Str main_graph)) zs = Inr g \<longrightarrow>
          getKnowledgeGraph st =
            (Inr (js_or g empty_graph),
             st\<lparr>localStorage := (localStorage st)
                  (''knowledge_graph'' \<mapsto> JsonText (json_copy (js_or g empty_graph)))\<rparr>))"
  using assms
  by (auto simp: getNote_def getSetting_def getKnowledgeGraph_def performTransaction_def
      performLocalStorageOperation_def js_find_def stringify_def await_def resolve_def
      js_or_def empty_graph_def)

theorem fallback_reads_write_back_witness:
  "useLocalStorage stale_fallback_state
   \<and> getNote (Str (ascii ''n2'')) stale_fallback_state =
       (Inr (Obj [(''id'', Str (ascii ''n2'')), (''title'', Str (ascii ''Beta''))]),
        stale_fallback_state\<lparr>localStorage := (localStorage stale_fallback_state)
          (''notes'' \<mapsto>
             JsonText (Obj [(''id'', Str (ascii ''n2'')), (''title'', Str (ascii ''Beta''))]))\<rparr>)
   \<and> getSetting (Str (ascii ''theme'')) Null stale_fallback_state =
       (Inr (Str (ascii ''dark'')),
        stale_fallback_state\<lparr>localStorage := (localStorage stale_fallback_state)
          (''settings'' \<mapsto>
             JsonText (Obj [(''key'', Str (ascii ''theme'')), (''value'', Str (ascii ''dark''))]))\<rparr>)
   \<and> getKnowledgeGraph stale_fallback_state =
       (Inr empty_graph,
        stale_fallback_state\<lparr>localStorage := (localStorage stale_fallback_state)
          (''knowledge_graph'' \<mapsto> JsonText empty_graph)\<rparr>)"
  using fallback_reads_write_back [of stale_fallback_state
     "[Obj [(''id'', Str (ascii ''n1'')), (''title'', Str (ascii ''Alpha''))],
       Obj [(''id'', Str (ascii ''n2'')), (''title'', Str (ascii ''Beta''))]]"
     "Str (ascii ''n2'')" "Obj [(''id'', Str (ascii ''n2'')), (''title'', Str (ascii ''Beta''))]"
     "[Obj [(''key'', Str (ascii ''theme'')), (''value'', Str (ascii ''dark''))]]"
     "Str (ascii ''theme'')" "Obj [(''key'', Str (ascii ''theme'')), (''value'', Str (ascii ''dark''))]"
     Null "[]" Undefined]
  by (simp add: stale_fallback_state_def fallback_state_def parse_item_def prop_is_def
      js_get_def ascii_def js_or_def empty_graph_def)

subsection \<open>The knowledge graph before any save\<close>

text \<open>
  C5.  On a fresh profile, where no knowledge graph has been saved, \<open>getKnowledgeGraph\<close>
  resolves with \<open>undefined\<close> when the object store is active.  On the fallback it
  resolves with the empty graph, stores that graph under \<open>knowledge_graph\<close>, and the
  next call rejects with a TypeError because the stored entry is no longer an array.
\<close>

theorem getKnowledgeGraph_when_never_saved:
  "fst (getKnowledgeGraph structured_state) = Inr Undefined
   \<and> fst (getKnowledgeGraph fallback_state) = Inr empty_graph
   \<and> localStorage (snd (getKnowledgeGraph fallback_state)) ''knowledge_graph''
       = Some (JsonText empty_graph)
   \<and> fst (getKnowledgeGraph (snd (getKnowledgeGraph fallback_state))) = Inl TypeError"
  by (simp add: getKnowledgeGraph_def structured_state_def fallback_state_def
      performTransaction_def performLocalStorageOperation_def parse_item_def js_find_def
      js_or_def empty_graph_def stringify_def keyPath_def idb_lookup_def)

subsection \<open>Object stores and records\<close>

lemma map_of_insert_sorted: "map_of (insert_sorted k v xs) = (map_of xs)(k \<mapsto> v)"
  if "k \<notin> fst ` set xs"
  using that by (induction xs) (auto simp: fun_upd_twist)

lemma map_of_idb_delete: "map_of (idb_delete k xs) = (map_of xs)(k := None)"
  by (induction xs) (auto simp: idb_delete_def)

lemma map_of_idb_put: "map_of (idb_put k v xs) = (map_of xs)(k \<mapsto> v)"
proof -
  have "k \<notin> fst ` set (idb_delete k xs)"
    by (auto simp: idb_delete_def)
  then show ?thesis
    by (simp add: idb_put_def map_of_insert_sorted map_of_idb_delete)
qed

lemma set_insert_sorted: "set (insert_sorted k v xs) = insert (k, v) (set xs)"
  by (induction xs) auto

lemma distinct_insert_sorted:
  "distinct (map fst (insert_sorted k v xs)) \<longleftrightarrow> k \<notin> fst ` set xs \<and> distinct (map fst xs)"
  by (induction xs) (auto simp: set_insert_sorted)

lemma store_ok_idb_put:
  assumes "store_ok kp xs" and "valid_key k" and "get_prop v kp = k"
  shows "store_ok kp (idb_put k v xs)"
  using assms
  by (auto simp: store_ok_def idb_put_def idb_delete_def distinct_insert_sorted
      set_insert_sorted list_all_iff distinct_map_filter)

lemma idb_lookup_insert:
  "idb_lookup (idb_put k v xs) k' = (if k' = k then v else idb_lookup xs k')"
  by (simp add: idb_lookup_def map_of_idb_put)

lemma get_prop_noteData:
  "get_prop (noteData note i c u) ''id'' = i"
  "get_prop (noteData note i c u) ''title'' = js_or (get_prop note ''title'') (Str untitled_note)"
  "get_prop (noteData note i c u) ''content'' = js_or (get_prop note ''content'') (Str [])"
  "get_prop (noteData note i c u) ''tags'' = js_or (get_prop note ''tags'') (Arr [])"
  "get_prop (noteData note i c u) ''createdAt'' = c"
  "get_prop (noteData note i c u) ''updatedAt'' = u"
  "get_prop (noteData note i c u) ''wordCount'' =
     (if truthy (get_prop note ''content'')
      then get_prop (get_prop note ''content'') ''length'' else Num 0)"
  by (simp_all add: noteData_def)

lemma get_prop_taskData:
  "get_prop (taskData task i c u) ''id'' = i"
  "get_prop (taskData task i c u) ''title'' = js_or (get_prop task ''title'') (Str new_task)"
  "get_prop (taskData task i c u) ''description'' = js_or (get_prop task ''description'') (Str [])"
  "get_prop (taskData task i c u) ''priority'' = js_or (get_prop task ''priority'') (Str medium)"
  "get_prop (taskData task i c u) ''completed'' = js_or (get_prop task ''completed'') (Bool False)"
  "get_prop (taskData task i c u) ''dueDate'' = js_or (get_prop task ''dueDate'') Null"
  "get_prop (taskData task i c u) ''createdAt'' = c"
  "get_prop (taskData task i c u) ''updatedAt'' = u"
  "get_prop (taskData task i c u) ''relatedNoteId'' = js_or (get_prop task ''relatedNoteId'') Null"
  by (simp_all add: taskData_def)

lemma map_of_obj_set: "map_of (obj_set fs p v) = (map_of fs)(p \<mapsto> v)"
  by (induction fs p v rule: obj_set.induct) (auto simp: fun_upd_twist)

lemma get_prop_obj_set:
  "get_prop (Obj (obj_set fs p v)) q = (if q = p then v else get_prop (Obj fs) q)"
  by (simp add: map_of_obj_set)

lemma js_set_Obj: "js_set (Obj fs) p v = Inr t \<longleftrightarrow> t = Obj (obj_set fs p v)"
  by auto

subsection \<open>The operations on the object stores\<close>

lemma getNote_structured:
  assumes "\<not> useLocalStorage st" "db st = Some d"
  shows "getNote k st =
     (if valid_key k then (Inr (idb_lookup (d ''notes'') k), st) else (Inl DataError, st))"
  using assms by (simp add: getNote_def performTransaction_def)

lemma getTask_structured:
  assumes "\<not> useLocalStorage st" "db st = Some d"
  shows "getTask k st =
     (if valid_key k then (Inr (idb_lookup (d ''tasks'') k), st) else (Inl DataError, st))"
  using assms by (simp add: getTask_def performTransaction_def)

lemma saveNote_structured:
  assumes "\<not> useLocalStorage st" "db st = Some d" "\<not> nullish note"
  shows "saveNote note st =
     (case or_else (get_prop note ''id'') generateId st of (i, st1) \<Rightarrow>
      case or_else (get_prop note ''createdAt'') toISOString_now st1 of (c, st2) \<Rightarrow>
      case toISOString_now st2 of (u, st3) \<Rightarrow>
        if valid_key i
        then (Inr (noteData note i c u),
              st3\<lparr>db := Some (d(''notes'' := idb_put i (noteData note i c u) (d ''notes'')))\<rparr>)
        else (Inl DataError, st3))"
  using assms
  by (simp add: saveNote_def or_else_def generateId_def toISOString_now_def await_def
      resolve_def performTransaction_def keyPath_def get_prop_noteData split: prod.splits)

lemma saveTask_structured:
  assumes "\<not> useLocalStorage st" "db st = Some d" "\<not> nullish task"
  shows "saveTask task st =
     (case or_else (get_prop task ''id'') generateId st of (i, st1) \<Rightarrow>
      case or_else (get_prop task ''createdAt'') toISOString_now st1 of (c, st2) \<Rightarrow>
      case toISOString_now st2 of (u, st3) \<Rightarrow>
        if valid_key i
        then (Inr (taskData task i c u),
              st3\<lparr>db := Some (d(''tasks'' := idb_put i (taskData task i c u) (d ''tasks'')))\<rparr>)
        else (Inl DataError, st3))"
  using assms
  by (simp add: saveTask_def or_else_def generateId_def toISOString_now_def await_def
      resolve_def performTransaction_def keyPath_def get_prop_taskData split: prod.splits)

text \<open>
  A save on the object store, seen from outside: the record is stored under its id
  (the given one if truthy, the generated one otherwise), its \<open>updatedAt\<close> is a clock
  reading taken during the call, and nothing but the store, the clock position and
  the id position changes.
\<close>

lemma saveTask_effect:
  fixes task st kid
  defines "kid \<equiv> if truthy (get_prop task ''id'') then get_prop task ''id''
                else Str (idsrc st (idn st))"
  assumes "\<not> useLocalStorage st" and "db st = Some d" and "\<not> nullish task"
    and "truthy (get_prop task ''id'') \<longrightarrow> valid_key (get_prop task ''id'')"
  shows "\<exists>c i st1.
           saveTask task st = (Inr (taskData task kid c (Str (clock st i))), st1)
         \<and> ticks st \<le> i \<and> ticks st1 = Suc i \<and> clock st1 = clock st
         \<and> idsrc st1 = idsrc st \<and> idn st \<le> idn st1
         \<and> \<not> useLocalStorage st1 \<and> localStorage st1 = localStorage st
         \<and> db st1 = Some (d(''tasks'' :=
               idb_put kid (taskData task kid c (Str (clock st i))) (d ''tasks'')))"
proof (cases "truthy (get_prop task ''createdAt'')")
  case True
  show ?thesis
    unfolding kid_def
    apply (rule exI [of _ "get_prop task ''createdAt''"])
    apply (rule exI [of _ "ticks st"])
    using assms(2-) True
    by (simp add: saveTask_structured or_else_def generateId_def toISOString_now_def)
next
  case False
  show ?thesis
    unfolding kid_def
    apply (rule exI [of _ "Str (clock st (ticks st))"])
    apply (rule exI [of _ "Suc (ticks st)"])
    using assms(2-) False
    by (simp add: saveTask_structured or_else_def generateId_def toISOString_now_def)
qed

lemma saveNote_effect:
  fixes nt st kid
  defines "kid \<equiv> if truthy (get_prop nt ''id'') then get_prop nt ''id''
                else Str (idsrc st (idn st))"
  assumes "\<not> useLocalStorage st" and "db st = Some d" and "\<not> nullish nt"
    and "truthy (get_prop nt ''id'') \<longrightarrow> valid_key (get_prop nt ''id'')"
  shows "\<exists>c i st1.
           saveNote nt st = (Inr (noteData nt kid c (Str (clock st i))), st1)
         \<and> ticks st \<le> i \<and> ticks st1 = Suc i \<and> clock st1 = clock st
         \<and> idsrc st1 = idsrc st \<and> idn st \<le> idn st1
         \<and> \<not> useLocalStorage st1 \<and> localStorage st1 = localStorage st
         \<and> db st1 = Some (d(''notes'' :=
               idb_put kid (noteData nt kid c (Str (clock st i))) (d ''notes'')))"
proof (cases "truthy (get_prop nt ''createdAt'')")
  case True
  show ?thesis
    unfolding kid_def
    apply (rule exI [of _ "get_prop nt ''createdAt''"])
    apply (rule exI [of _ "ticks st"])
    using assms(2-) True
    by (simp add: saveNote_structured or_else_def generateId_def toISOString_now_def)
next
  case False
  show ?thesis
    unfolding kid_def
    apply (rule exI [of _ "Str (clock st (ticks st))"])
    apply (rule exI [of _ "Suc (ticks st)"])
    using assms(2-) False
    by (simp add: saveNote_structured or_else_def generateId_def toISOString_now_def)
qed

lemma updateTaskStatus_found:
  assumes "getTask k st = (Inr t, st')" and "truthy t"
    and "js_set t ''completed'' b = Inr t1"
    and "js_set t1 ''updatedAt'' (Str (clock st' (ticks st'))) = Inr t2"
  shows "updateTaskStatus k b st =
     (case saveTask t2 (st'\<lparr>ticks := Suc (ticks st')\<rparr>) of
        (Inl e, s) \<Rightarrow> (Inl e, s)
      | (Inr r, s) \<Rightarrow> (Inr t2, s))"
  using assms
  by (simp add: updateTaskStatus_def await_def settle_def toISOString_now_def resolve_def
      split: prod.splits sum.splits)

lemma updateTaskStatus_absent:
  assumes "getTask k st = (Inr t, st')" and "\<not> truthy t"
  shows "updateTaskStatus k b st = (Inr t, st')"
  using assms by (simp add: updateTaskStatus_def await_def resolve_def)

subsection \<open>Saving and reading back a note\<close>

text \<open>
  C4, as the code has it.  On the object store, let \<open>N\<close> be a note object whose id is
  falsy or a valid key, whose content is falsy or a string, and whose \<open>createdAt\<close> is
  falsy or a timestamp not later than the clock reading of the save (when \<open>createdAt\<close>
  is falsy the clock must not run backwards between the two readings of the save).
  Then \<open>saveNote(N)\<close> followed by \<open>getNote\<close> on the saved id returns a record whose
  \<open>wordCount\<close> is the length of its content and whose \<open>updatedAt\<close> is not before its
  \<open>createdAt\<close>; a truthy id of \<open>N\<close> is the id of the record.
\<close>

theorem saveNote_then_getNote:
  assumes "\<not> useLocalStorage st" and "db st = Some d" and "\<not> nullish note"
    and "truthy (get_prop note ''id'') \<longrightarrow> valid_key (get_prop note ''id'')"
    and "truthy (get_prop note ''content'') \<longrightarrow> (\<exists>s. get_prop note ''content'' = Str s)"
    and "if truthy (get_prop note ''createdAt'')
         then \<exists>c. get_prop note ''createdAt'' = Str c \<and> c \<le> clock st (ticks st)
         else clock st (ticks st) \<le> clock st (Suc (ticks st))"
  shows "\<exists>r content c u.
           saved_then_read note st = Inr r
         \<and> get_prop r ''content'' = Str content
         \<and> get_prop r ''wordCount'' = Num (int (length content))
         \<and> get_prop r ''createdAt'' = Str c \<and> get_prop r ''updatedAt'' = Str u \<and> c \<le> u
         \<and> (truthy (get_prop note ''id'') \<longrightarrow> get_prop r ''id'' = get_prop note ''id'')"
  using assms
  by (auto simp: saved_then_read_def saveNote_structured getNote_structured or_else_def
      generateId_def toISOString_now_def get_prop_noteData idb_lookup_insert js_or_def
      split: if_splits)

theorem saveNote_then_getNote_witness:
  "\<exists>r content c u.
     saved_then_read sample_note structured_state = Inr r
   \<and> get_prop r ''content'' = Str content
   \<and> get_prop r ''wordCount'' = Num (int (length content))
   \<and> get_prop r ''createdAt'' = Str c \<and> get_prop r ''updatedAt'' = Str u \<and> c \<le> u"
proof -
  have "\<not> useLocalStorage structured_state"
    and "db structured_state = Some (\<lambda>storeName. [])"
    and "\<not> nullish sample_note"
    and "truthy (get_prop sample_note ''id'') \<longrightarrow> valid_key (get_prop sample_note ''id'')"
    and "truthy (get_prop sample_note ''content'')
           \<longrightarrow> (\<exists>s. get_prop sample_note ''content'' = Str s)"
    and "if truthy (get_prop sample_note ''createdAt'')
         then \<exists>c. get_prop sample_note ''createdAt'' = Str c
                \<and> c \<le> clock structured_state (ticks structured_state)
         else clock structured_state (ticks structured_state)
                \<le> clock structured_state (Suc (ticks structured_state))"
    by (simp_all add: structured_state_def sample_note_def sample_clock_def ascii_def)
  from saveNote_then_getNote [OF this] show ?thesis by blast
qed

text \<open>
  The claim as stated fails on a note dated after the clock: the record read back has
  \<open>updatedAt\<close> before \<open>createdAt\<close>.  It also fails on the id: an id that is the empty
  string is replaced by a generated one.
\<close>

theorem saveNote_then_getNote_counterexample:
  "saved_then_read future_note frozen_state =
     Inr (Obj [(''id'', Str (ascii ''n1'')),
               (''title'', Str untitled_note),
               (''content'', Str (ascii ''hi'')),
               (''tags'', Arr []),
               (''createdAt'', Str (ascii ''2030-01-01T00:00:00.000Z'')),
               (''updatedAt'', Str (ascii ''2026-11-03T10:00:00.000Z'')),
               (''wordCount'', Num 2)])
   \<and> ascii ''2026-11-03T10:00:00.000Z'' < ascii ''2030-01-01T00:00:00.000Z''
   \<and> saved_then_read (Obj [(''id'', Str [])]) frozen_state =
     Inr (Obj [(''id'', Str (ascii ''mhjk2x9q'')),
               (''title'', Str untitled_note),
               (''content'', Str []),
               (''tags'', Arr []),
               (''createdAt'', Str (ascii ''2026-11-03T10:00:00.000Z'')),
               (''updatedAt'', Str (ascii ''2026-11-03T10:00:00.000Z'')),
               (''wordCount'', Num 0)])"
  by (simp add: saved_then_read_def saveNote_def getNote_def future_note_def frozen_state_def
      structured_state_def or_else_def generateId_def toISOString_now_def await_def resolve_def
      performTransaction_def keyPath_def noteData_def js_or_def idb_lookup_def
      idb_put_def idb_delete_def frozen_clock_def sample_ids_def ascii_def)

subsection \<open>Changing the status of a task\<close>

lemma saveTask_readings:
  assumes "\<not> useLocalStorage st" and "db st = Some d" and "\<not> nullish task"
    and "truthy (get_prop task ''id'') \<longrightarrow> valid_key (get_prop task ''id'')"
  shows "\<exists>st1.
           saveTask task st =
             (Inr (taskData task
                     (if truthy (get_prop task ''id'') then get_prop task ''id''
                      else Str (idsrc st (idn st)))
                     (if truthy (get_prop task ''createdAt'') then get_prop task ''createdAt''
                      else Str (clock st (ticks st)))
                     (Str (clock st (save_reading task st)))), st1)
         \<and> ticks st1 = Suc (save_reading task st) \<and> clock st1 = clock st
         \<and> \<not> useLocalStorage st1
         \<and> db st1 = Some (d(''tasks'' :=
               idb_put (if truthy (get_prop task ''id'') then get_prop task ''id''
                        else Str (idsrc st (idn st)))
                 (taskData task
                     (if truthy (get_prop task ''id'') then get_prop task ''id''
                      else Str (idsrc st (idn st)))
                     (if truthy (get_prop task ''createdAt'') then get_prop task ''createdAt''
                      else Str (clock st (ticks st)))
                     (Str (clock st (save_reading task st))))
                 (d ''tasks'')))"
  using assms
  by (simp add: saveTask_structured or_else_def generateId_def toISOString_now_def
      save_reading_def)

lemma status_change_readings:
  assumes st: "\<not> useLocalStorage st" "db st = Some d" and task: "\<not> nullish task"
    and key: "truthy (get_prop task ''id'') \<longrightarrow> valid_key (get_prop task ''id'')"
    and gen: "\<not> truthy (get_prop task ''id'') \<longrightarrow> idsrc st (idn st) \<noteq> []"
  shows "\<exists>saved r.
           status_change task st = Inr (saved, r)
         \<and> get_prop r ''id'' = get_prop saved ''id''
         \<and> get_prop r ''completed'' = Bool True
         \<and> get_prop saved ''updatedAt'' = Str (clock st (save_reading task st))
         \<and> get_prop r ''updatedAt'' = Str (clock st (status_reading task st))"
proof -
  define kid where "kid = (if truthy (get_prop task ''id'') then get_prop task ''id''
                           else Str (idsrc st (idn st)))"
  define c where "c = (if truthy (get_prop task ''createdAt'') then get_prop task ''createdAt''
                       else Str (clock st (ticks st)))"
  define i where "i = save_reading task st"
  have kid: "valid_key kid" "truthy kid"
    using key gen by (auto simp: kid_def)
  have c: "truthy c \<longleftrightarrow> truthy (get_prop task ''createdAt'') \<or> clock st (ticks st) \<noteq> []"
    by (simp add: c_def)
  from saveTask_readings [OF st task key] obtain st1 where
    s1: "saveTask task st = (Inr (taskData task kid c (Str (clock st i))), st1)"
    and t1: "ticks st1 = Suc i" "clock st1 = clock st"
    and b1: "\<not> useLocalStorage st1"
    and d1: "db st1 = Some (d(''tasks'' :=
               idb_put kid (taskData task kid c (Str (clock st i))) (d ''tasks'')))"
    unfolding kid_def c_def i_def by (elim exE conjE)
  let ?saved = "taskData task kid c (Str (clock st i))"
  let ?d1 = "d(''tasks'' := idb_put kid ?saved (d ''tasks''))"
  have g1: "getTask kid st1 = (Inr ?saved, st1)"
    using kid by (simp add: getTask_structured [OF b1 d1] idb_lookup_insert)
  obtain fs where fs: "?saved = Obj fs"
    by (simp add: taskData_def)
  define u1 where "u1 = Obj (obj_set fs ''completed'' (Bool True))"
  define u2 where "u2 = Obj (obj_set (obj_set fs ''completed'' (Bool True)) ''updatedAt''
      (Str (clock st1 (ticks st1))))"
  have u1: "js_set ?saved ''completed'' (Bool True) = Inr u1"
    by (simp only: fs u1_def js_set.simps)
  have u2: "js_set u1 ''updatedAt'' (Str (clock st1 (ticks st1))) = Inr u2"
    by (simp only: u1_def u2_def js_set.simps)
  have u2_props: "\<not> nullish u2" "get_prop u2 ''id'' = kid" "get_prop u2 ''completed'' = Bool True"
    "get_prop u2 ''createdAt'' = c"
    by (simp_all add: u2_def get_prop_obj_set fs [symmetric] get_prop_taskData
        del: obj_set.simps get_prop.simps)
  let ?st1' = "st1\<lparr>ticks := Suc (ticks st1)\<rparr>"
  have b1': "\<not> useLocalStorage ?st1'" and d1': "db ?st1' = Some ?d1"
    using b1 d1 by simp_all
  have key2: "truthy (get_prop u2 ''id'') \<longrightarrow> valid_key (get_prop u2 ''id'')"
    using kid u2_props by simp
  have j: "save_reading u2 ?st1' = status_reading task st"
    using t1 c by (simp add: save_reading_def status_reading_def u2_props i_def)
  from saveTask_readings [OF b1' d1' u2_props(1) key2] obtain st2 where
    s2: "saveTask u2 ?st1' =
           (Inr (taskData u2 kid
                   (if truthy c then c else Str (clock ?st1' (ticks ?st1')))
                   (Str (clock ?st1' (save_reading u2 ?st1')))), st2)"
    and b2: "\<not> useLocalStorage st2"
    and d2: "db st2 = Some (?d1(''tasks'' :=
               idb_put kid (taskData u2 kid
                   (if truthy c then c else Str (clock ?st1' (ticks ?st1')))
                   (Str (clock ?st1' (save_reading u2 ?st1')))) (?d1 ''tasks'')))"
    using kid u2_props by auto
  define c2 where "c2 = (if truthy c then c else Str (clock ?st1' (ticks ?st1')))"
  let ?r = "taskData u2 kid c2 (Str (clock st (status_reading task st)))"
  have upd: "updateTaskStatus kid (Bool True) st1 = (Inr u2, st2)"
    using updateTaskStatus_found [OF g1 _ u1 u2] s2 by (simp add: taskData_def)
  have g2: "getTask kid st2 = (Inr ?r, st2)"
    using kid by (simp add: getTask_structured [OF b2 d2] idb_lookup_insert j t1(2) c2_def)
  have "status_change task st = Inr (?saved, ?r)"
    by (simp add: status_change_def s1 get_prop_taskData upd g2)
  moreover have "get_prop ?r ''id'' = get_prop ?saved ''id''"
    by (simp add: get_prop_taskData)
  moreover have "get_prop ?r ''completed'' = Bool True"
    by (simp add: get_prop_taskData u2_props js_or_def)
  moreover have "get_prop ?saved ''updatedAt'' = Str (clock st (save_reading task st))"
    by (simp add: get_prop_taskData i_def)
  moreover have "get_prop ?r ''updatedAt'' = Str (clock st (status_reading task st))"
    by (simp add: get_prop_taskData)
  ultimately show ?thesis
    by (intro exI [of _ ?saved] exI [of _ ?r] conjI)
qed

text \<open>
  C6, as the code has it.  On the object store, for a task object \<open>T\<close> whose id is
  falsy or a valid key (a generated id is never empty), \<open>saveTask(T)\<close>, then
  \<open>updateTaskStatus(id, true)\<close>, then \<open>getTask(id)\<close> returns the record with the same
  id and \<open>completed\<close> true.  The \<open>updatedAt\<close> of the first save is the clock reading at
  position \<open>save_reading\<close>, the \<open>updatedAt\<close> read at the end is the reading at the
  later position \<open>status_reading\<close>.  So the second is greater than or equal to the
  first exactly when the clock did not go back from the one reading to the other, and
  strictly greater exactly when the clock advanced between them.  \<open>updateTaskStatus\<close>
  on an id that the store does not hold returns \<open>undefined\<close> and changes nothing.
\<close>

theorem updateTaskStatus_after_saveTask:
  assumes "\<not> useLocalStorage st" and "db st = Some d" and "\<not> nullish task"
    and "truthy (get_prop task ''id'') \<longrightarrow> valid_key (get_prop task ''id'')"
    and "\<not> truthy (get_prop task ''id'') \<longrightarrow> idsrc st (idn st) \<noteq> []"
  shows "(\<exists>saved r u0 u1.
            status_change task st = Inr (saved, r)
          \<and> get_prop r ''id'' = get_prop saved ''id''
          \<and> get_prop r ''completed'' = Bool True
          \<and> get_prop saved ''updatedAt'' = Str u0
          \<and> get_prop r ''updatedAt'' = Str u1
          \<and> u0 = clock st (save_reading task st)
          \<and> u1 = clock st (status_reading task st)
          \<and> (u0 \<le> u1 \<longleftrightarrow> clock st (save_reading task st) \<le> clock st (status_reading task st))
          \<and> (u0 < u1 \<longleftrightarrow> clock st (save_reading task st) < clock st (status_reading task st)))
       \<and> save_reading task st < status_reading task st
       \<and> (valid_key ident \<longrightarrow> map_of (d ''tasks'') ident = None \<longrightarrow>
            updateTaskStatus ident completed st = (Inr Undefined, st))"
proof -
  from status_change_readings [OF assms] obtain saved r where
    *: "status_change task st = Inr (saved, r)"
       "get_prop r ''id'' = get_prop saved ''id''"
       "get_prop r ''completed'' = Bool True"
       "get_prop saved ''updatedAt'' = Str (clock st (save_reading task st))"
       "get_prop r ''updatedAt'' = Str (clock st (status_reading task st))"
    by (elim exE conjE)
  have first: "\<exists>saved r u0 u1.
            status_change task st = Inr (saved, r)
          \<and> get_prop r ''id'' = get_prop saved ''id''
          \<and> get_prop r ''completed'' = Bool True
          \<and> get_prop saved ''updatedAt'' = Str u0
          \<and> get_prop r ''updatedAt'' = Str u1
          \<and> u0 = clock st (save_reading task st)
          \<and> u1 = clock st (status_reading task st)
          \<and> (u0 \<le> u1 \<longleftrightarrow> clock st (save_reading task st) \<le> clock st (status_reading task st))
          \<and> (u0 < u1 \<longleftrightarrow> clock st (save_reading task st) < clock st (status_reading task st))"
    using *
    by (intro exI [of _ saved] exI [of _ r] exI [of _ "clock st (save_reading task st)"]
        exI [of _ "clock st (status_reading task st)"]) simp
  have order: "save_reading task st < status_reading task st"
    by (simp add: status_reading_def)
  have absent: "updateTaskStatus ident completed st = (Inr Undefined, st)"
    if "valid_key ident" "map_of (d ''tasks'') ident = None"
  proof -
    have "getTask ident st = (Inr Undefined, st)"
      using that assms(1,2) by (simp add: getTask_structured idb_lookup_def)
    then show ?thesis
      by (simp add: updateTaskStatus_absent)
  qed
  from first order absent show ?thesis
    by (intro conjI impI)
qed

text \<open>
  With the sample clock the \<open>updatedAt\<close> goes from \<open>...00.001Z\<close> to \<open>...00.003Z\<close>; with
  the slow clock, whose first three readings are equal, from \<open>...00.000Z\<close> to
  \<open>...00.001Z\<close>.
\<close>

theorem updateTaskStatus_after_saveTask_witness:
  "(\<exists>saved r.
      status_change sample_task structured_state = Inr (saved, r)
    \<and> get_prop r ''completed'' = Bool True
    \<and> get_prop saved ''updatedAt'' = Str (ascii ''2026-11-03T10:00:00.001Z'')
    \<and> get_prop r ''updatedAt'' = Str (ascii ''2026-11-03T10:00:00.003Z''))
   \<and> (\<exists>saved r.
      status_change sample_task slow_state = Inr (saved, r)
    \<and> get_prop r ''completed'' = Bool True
    \<and> get_prop saved ''updatedAt'' = Str (ascii ''2026-11-03T10:00:00.000Z'')
    \<and> get_prop r ''updatedAt'' = Str (ascii ''2026-11-03T10:00:00.001Z''))
   \<and> ascii ''2026-11-03T10:00:00.001Z'' < ascii ''2026-11-03T10:00:00.003Z''
   \<and> ascii ''2026-11-03T10:00:00.000Z'' < ascii ''2026-11-03T10:00:00.001Z''
   \<and> updateTaskStatus (Str (ascii ''t9'')) (Bool True) structured_state
       = (Inr Undefined, structured_state)"
proof -
  have a: "\<not> useLocalStorage structured_state"
    "db structured_state = Some (\<lambda>storeName. [])"
    "\<not> nullish sample_task"
    "truthy (get_prop sample_task ''id'') \<longrightarrow> valid_key (get_prop sample_task ''id'')"
    "\<not> truthy (get_prop sample_task ''id'')
           \<longrightarrow> idsrc structured_state (idn structured_state) \<noteq> []"
    by (simp_all add: structured_state_def sample_task_def sample_ids_def ascii_def)
  have b: "\<not> useLocalStorage slow_state"
    "db slow_state = Some (\<lambda>storeName. [])"
    "\<not> truthy (get_prop sample_task ''id'')
           \<longrightarrow> idsrc slow_state (idn slow_state) \<noteq> []"
    by (simp_all add: slow_state_def structured_state_def sample_ids_def ascii_def)
  have ra: "clock structured_state (save_reading sample_task structured_state)
              = ascii ''2026-11-03T10:00:00.001Z''"
    "clock structured_state (status_reading sample_task structured_state)
              = ascii ''2026-11-03T10:00:00.003Z''"
    by (simp_all add: save_reading_def status_reading_def structured_state_def sample_task_def
        sample_clock_def ascii_def)
  have rb: "clock slow_state (save_reading sample_task slow_state)
              = ascii ''2026-11-03T10:00:00.000Z''"
    "clock slow_state (status_reading sample_task slow_state)
              = ascii ''2026-11-03T10:00:00.001Z''"
    by (simp_all add: save_reading_def status_reading_def slow_state_def structured_state_def
        sample_task_def slow_clock_def sample_clock_def ascii_def)
  have lt: "ascii ''2026-11-03T10:00:00.001Z'' < ascii ''2026-11-03T10:00:00.003Z''"
    "ascii ''2026-11-03T10:00:00.000Z'' < ascii ''2026-11-03T10:00:00.001Z''"
    by (simp_all add: ascii_def)
  have k: "valid_key (Str (ascii ''t9''))"
    "map_of ((\<lambda>storeName. []) ''tasks'') (Str (ascii ''t9'')) = None"
    by simp_all
  from updateTaskStatus_after_saveTask [OF a, of "Str (ascii ''t9'')" "Bool True"] k
  have 1: "\<exists>saved r.
      status_change sample_task structured_state = Inr (saved, r)
    \<and> get_prop r ''completed'' = Bool True
    \<and> get_prop saved ''updatedAt'' = Str (ascii ''2026-11-03T10:00:00.001Z'')
    \<and> get_prop r ''updatedAt'' = Str (ascii ''2026-11-03T10:00:00.003Z'')"
    and 3: "updateTaskStatus (Str (ascii ''t9'')) (Bool True) structured_state
       = (Inr Undefined, structured_state)"
    unfolding ra by auto
  from updateTaskStatus_after_saveTask [OF b(1,2) a(3,4) b(3),
      where ident = Undefined and completed = Undefined]
  have 2: "\<exists>saved r.
      status_change sample_task slow_state = Inr (saved, r)
    \<and> get_prop r ''completed'' = Bool True
    \<and> get_prop saved ''updatedAt'' = Str (ascii ''2026-11-03T10:00:00.000Z'')
    \<and> get_prop r ''updatedAt'' = Str (ascii ''2026-11-03T10:00:00.001Z'')"
    unfolding rb by auto
  from 1 2 3 lt show ?thesis
    by (intro conjI)
qed

text \<open>
  The claim as stated asks for a strictly greater \<open>updatedAt\<close>.  When the clock gives
  the same reading throughout (all calls within one millisecond), the \<open>updatedAt\<close>
  read at the end equals the one of the first save.
\<close>

theorem updateTaskStatus_after_saveTask_counterexample:
  "updatedAt_pair (status_change sample_task frozen_state) =
     Inr (Str (ascii ''2026-11-03T10:00:00.000Z''), Str (ascii ''2026-11-03T10:00:00.000Z''))"
proof -
  have "\<not> useLocalStorage frozen_state"
    and "db frozen_state = Some (\<lambda>storeName. [])"
    and "\<not> nullish sample_task"
    and "truthy (get_prop sample_task ''id'') \<longrightarrow> valid_key (get_prop sample_task ''id'')"
    and "\<not> truthy (get_prop sample_task ''id'')
           \<longrightarrow> idsrc frozen_state (idn frozen_state) \<noteq> []"
    by (simp_all add: frozen_state_def structured_state_def sample_task_def sample_ids_def
        ascii_def)
  from status_change_readings [OF this] obtain saved r where
    "status_change sample_task frozen_state = Inr (saved, r)"
    "get_prop saved ''updatedAt'' = Str (clock frozen_state (save_reading sample_task frozen_state))"
    "get_prop r ''updatedAt'' = Str (clock frozen_state (status_reading sample_task frozen_state))"
    by (elim exE conjE)
  then show ?thesis
    by (simp add: updatedAt_pair_def frozen_state_def frozen_clock_def)
qed

subsection \<open>Import failures\<close>

lemma for_each_abort:
  assumes "for_each f xs st = (Inr u, st1)" and "f x st1 = (Inl e, st2)"
  shows "for_each f (xs @ x # ys) st = (Inl e, st2)"
  using assms
  by (induction xs arbitrary: st) (auto split: prod.splits sum.splits)

lemma truthy_not_nullish: "truthy v \<Longrightarrow> \<not> nullish v"
  by (cases v) auto

lemma for_each_if_array_abort:
  assumes "v = Arr (xs @ x # ys)"
    and "for_each f xs st = (Inr Undefined, st1)" and "f x st1 = (Inl e, st2)"
  shows "for_each_if_array f v st = (Inl e, st2)"
  using assms by (simp add: for_each_if_array_def for_each_abort)

text \<open>
  C8.  \<open>importData\<close> rejects with the error \<open>new Error(...)\<close> of the source, and
  touches nothing, when the document has no truthy \<open>data\<close>.  The batch has four
  stages: the notes, the tasks, the knowledge graph, the settings.  When the save of
  one record rejects with \<open>e\<close> (a note, a task, the knowledge graph or a setting, the
  stages before it having gone through), the import rejects with \<open>e\<close>, and the state
  it leaves is the one reached by the saves before it: they are not undone, and the
  records after it are not saved.  When no save rejects, the import returns \<open>true\<close>
  in the state reached by all the saves.
\<close>

theorem importData_failures:
  "(\<not> nullish doc \<longrightarrow> \<not> truthy (get_prop doc ''data'') \<longrightarrow>
      importData doc st = (Inl (Error invalid_import_format), st))
   \<and> (truthy (get_prop doc ''data'') \<longrightarrow>
      get_prop (get_prop doc ''data'') ''notes'' = Arr (saved @ bad # rest) \<longrightarrow>
      for_each saveNote saved st = (Inr Undefined, st1) \<longrightarrow>
      saveNote bad st1 = (Inl e, st2) \<longrightarrow>
      importData doc st = (Inl e, st2))
   \<and> (truthy (get_prop doc ''data'') \<longrightarrow>
      for_each_if_array saveNote (get_prop (get_prop doc ''data'') ''notes'') st
        = (Inr Undefined, st0) \<longrightarrow>
      get_prop (get_prop doc ''data'') ''tasks'' = Arr (saved' @ bad' # rest') \<longrightarrow>
      for_each saveTask saved' st0 = (Inr Undefined, st1') \<longrightarrow>
      saveTask bad' st1' = (Inl e', st2') \<longrightarrow>
      importData doc st = (Inl e', st2'))
   \<and> (truthy (get_prop doc ''data'') \<longrightarrow>
      for_each_if_array saveNote (get_prop (get_prop doc ''data'') ''notes'') st
        = (Inr Undefined, sa) \<longrightarrow>
      for_each_if_array saveTask (get_prop (get_prop doc ''data'') ''tasks'') sa
        = (Inr Undefined, sb) \<longrightarrow>
      truthy (get_prop (get_prop doc ''data'') ''knowledgeGraph'') \<longrightarrow>
      saveKnowledgeGraph (get_prop (get_prop doc ''data'') ''knowledgeGraph'') sb
        = (Inl eg, sc) \<longrightarrow>
      importData doc st = (Inl eg, sc))
   \<and> (truthy (get_prop doc ''data'') \<longrightarrow>
      for_each_if_array saveNote (get_prop (get_prop doc ''data'') ''notes'') st
        = (Inr Undefined, ta) \<longrightarrow>
      for_each_if_array saveTask (get_prop (get_prop doc ''data'') ''tasks'') ta
        = (Inr Undefined, tb) \<longrightarrow>
      (if truthy (get_prop (get_prop doc ''data'') ''knowledgeGraph'')
       then saveKnowledgeGraph (get_prop (get_prop doc ''data'') ''knowledgeGraph'')
       else resolve Undefined) tb = (Inr g, tc) \<longrightarrow>
      get_prop (get_prop doc ''data'') ''settings'' = Arr (kept @ failing # later) \<longrightarrow>
      for_each importSetting kept tc = (Inr Undefined, td) \<longrightarrow>
      importSetting failing td = (Inl es, te) \<longrightarrow>
      importData doc st = (Inl es, te))
   \<and> (truthy (get_prop doc ''data'') \<longrightarrow>
      for_each_if_array saveNote (get_prop (get_prop doc ''data'') ''notes'') st
        = (Inr Undefined, ua) \<longrightarrow>
      for_each_if_array saveTask (get_prop (get_prop doc ''data'') ''tasks'') ua
        = (Inr Undefined, ub) \<longrightarrow>
      (if truthy (get_prop (get_prop doc ''data'') ''knowledgeGraph'')
       then saveKnowledgeGraph (get_prop (get_prop doc ''data'') ''knowledgeGraph'')
       else resolve Undefined) ub = (Inr h, uc) \<longrightarrow>
      for_each_if_array importSetting (get_prop (get_prop doc ''data'') ''settings'') uc
        = (Inr Undefined, ud) \<longrightarrow>
      importData doc st = (Inr (Bool True), ud))"
proof (intro conjI impI)
  assume "\<not> nullish doc" "\<not> truthy (get_prop doc ''data'')"
  then show "importData doc st = (Inl (Error invalid_import_format), st)"
    by (simp add: importData_def reject_def)
next
  assume data: "truthy (get_prop doc ''data'')"
    and nts: "get_prop (get_prop doc ''data'') ''notes'' = Arr (saved @ bad # rest)"
    and pre: "for_each saveNote saved st = (Inr Undefined, st1)"
    and bad: "saveNote bad st1 = (Inl e, st2)"
  have "\<not> nullish doc"
    using data by (cases doc) auto
  moreover have "for_each_if_array saveNote (get_prop (get_prop doc ''data'') ''notes'') st
      = (Inl e, st2)"
    using nts pre bad by (rule for_each_if_array_abort)
  ultimately show "importData doc st = (Inl e, st2)"
    using data by (simp add: importData_def await_def)
next
  assume data: "truthy (get_prop doc ''data'')"
    and nts: "for_each_if_array saveNote (get_prop (get_prop doc ''data'') ''notes'') st
        = (Inr Undefined, st0)"
    and tks: "get_prop (get_prop doc ''data'') ''tasks'' = Arr (saved' @ bad' # rest')"
    and pre: "for_each saveTask saved' st0 = (Inr Undefined, st1')"
    and bad: "saveTask bad' st1' = (Inl e', st2')"
  have "\<not> nullish doc"
    using data by (cases doc) auto
  moreover have "for_each_if_array saveTask (get_prop (get_prop doc ''data'') ''tasks'') st0
      = (Inl e', st2')"
    using tks pre bad by (rule for_each_if_array_abort)
  ultimately show "importData doc st = (Inl e', st2')"
    using data nts by (simp add: importData_def await_def)
next
  assume data: "truthy (get_prop doc ''data'')"
    and nts: "for_each_if_array saveNote (get_prop (get_prop doc ''data'') ''notes'') st
        = (Inr Undefined, sa)"
    and tks: "for_each_if_array saveTask (get_prop (get_prop doc ''data'') ''tasks'') sa
        = (Inr Undefined, sb)"
    and kg: "truthy (get_prop (get_prop doc ''data'') ''knowledgeGraph'')"
    and bad: "saveKnowledgeGraph (get_prop (get_prop doc ''data'') ''knowledgeGraph'') sb
        = (Inl eg, sc)"
  have "\<not> nullish doc"
    using data by (cases doc) auto
  then show "importData doc st = (Inl eg, sc)"
    using data nts tks kg bad by (simp add: importData_def await_def)
next
  assume data: "truthy (get_prop doc ''data'')"
    and nts: "for_each_if_array saveNote (get_prop (get_prop doc ''data'') ''notes'') st
        = (Inr Undefined, ta)"
    and tks: "for_each_if_array saveTask (get_prop (get_prop doc ''data'') ''tasks'') ta
        = (Inr Undefined, tb)"
    and kg: "(if truthy (get_prop (get_prop doc ''data'') ''knowledgeGraph'')
       then saveKnowledgeGraph (get_prop (get_prop doc ''data'') ''knowledgeGraph'')
       else resolve Undefined) tb = (Inr g, tc)"
    and sts: "get_prop (get_prop doc ''data'') ''settings'' = Arr (kept @ failing # later)"
    and pre: "for_each importSetting kept tc = (Inr Undefined, td)"
    and bad: "importSetting failing td = (Inl es, te)"
  have "\<not> nullish doc"
    using data by (cases doc) auto
  moreover have "for_each_if_array importSetting (get_prop (get_prop doc ''data'') ''settings'') tc
      = (Inl es, te)"
    using sts pre bad by (rule for_each_if_array_abort)
  ultimately show "importData doc st = (Inl es, te)"
    using data nts tks kg by (simp add: importData_def await_def split: if_splits)
next
  assume data: "truthy (get_prop doc ''data'')"
    and nts: "for_each_if_array saveNote (get_prop (get_prop doc ''data'') ''notes'') st
        = (Inr Undefined, ua)"
    and tks: "for_each_if_array saveTask (get_prop (get_prop doc ''data'') ''tasks'') ua
        = (Inr Undefined, ub)"
    and kg: "(if truthy (get_prop (get_prop doc ''data'') ''knowledgeGraph'')
       then saveKnowledgeGraph (get_prop (get_prop doc ''data'') ''knowledgeGraph'')
       else resolve Undefined) ub = (Inr h, uc)"
    and sts: "for_each_if_array importSetting (get_prop (get_prop doc ''data'') ''settings'') uc
        = (Inr Undefined, ud)"
  have "\<not> nullish doc"
    using data by (cases doc) auto
  then show "importData doc st = (Inr (Bool True), ud)"
    using data nts tks kg sts
    by (simp add: importData_def await_def resolve_def split: if_splits)
qed

lemma saveNote_alpha_structured:
  "saveNote alpha_note structured_state =
     (Inr (noteData alpha_note (Str (ascii ''n1'')) (Str (sample_clock 0)) (Str (sample_clock 1))),
      structured_state\<lparr>ticks := 2, db := Some ((\<lambda>storeName. [])(''notes'' :=
        [(Str (ascii ''n1''),
          noteData alpha_note (Str (ascii ''n1'')) (Str (sample_clock 0)) (Str (sample_clock 1)))]))\<rparr>)"
  by (simp add: saveNote_def alpha_note_def structured_state_def
      or_else_def toISOString_now_def await_def resolve_def
      performTransaction_def keyPath_def noteData_def idb_put_def idb_delete_def ascii_def
      numeral_2_eq_2)

lemma pair_with_snd: "p = (x, snd p) \<longleftrightarrow> fst p = x"
  by (cases p) auto

theorem importData_failures_witness:
  "importData no_data_doc structured_state = (Inl (Error invalid_import_format), structured_state)
   \<and> fst (importData broken_doc structured_state) = Inl TypeError
   \<and> stored ''notes'' (snd (importData broken_doc structured_state)) =
       Some [noteData alpha_note (Str (ascii ''n1'')) (Str (sample_clock 0)) (Str (sample_clock 1))]
   \<and> fst (importData broken_tasks_doc structured_state) = Inl TypeError
   \<and> stored ''notes'' (snd (importData broken_tasks_doc structured_state)) =
       Some [noteData alpha_note (Str (ascii ''n1'')) (Str (sample_clock 0)) (Str (sample_clock 1))]
   \<and> stored ''tasks'' (snd (importData broken_tasks_doc structured_state)) =
       Some [taskData (Obj [(''id'', Str (ascii ''t1''))]) (Str (ascii ''t1''))
               (Str (sample_clock 2)) (Str (sample_clock 3))]
   \<and> fst (importData graph_doc fallback_state) = Inl TypeError
   \<and> fst (importData broken_settings_doc structured_state) = Inl DataError
   \<and> stored ''notes'' (snd (importData broken_settings_doc structured_state)) =
       Some [noteData alpha_note (Str (ascii ''n1'')) (Str (sample_clock 0)) (Str (sample_clock 1))]
   \<and> stored ''settings'' (snd (importData broken_settings_doc structured_state)) =
       Some [settingRecord (Str (ascii ''theme'')) (Str (ascii ''dark'')) (Str (sample_clock 2))]
   \<and> fst (importData good_doc structured_state) = Inr (Bool True)
   \<and> stored ''settings'' (snd (importData good_doc structured_state)) =
       Some [settingRecord (Str (ascii ''theme'')) (Str (ascii ''dark'')) (Str (sample_clock 2))]"
proof -
  let ?A = "snd (saveNote alpha_note structured_state)"
  let ?t1 = "Obj [(''id'', Str (ascii ''t1''))]"
  let ?B = "snd (saveTask ?t1 ?A)"
  let ?C = "snd (importSetting theme_setting ?A)"
  let ?D = "snd (importSetting keyless_setting ?C)"
  note ev = saveTask_def importSetting_def saveSetting_def saveKnowledgeGraph_def
    or_else_def toISOString_now_def generateId_def await_def resolve_def reject_def
    performTransaction_def performLocalStorageOperation_def parse_item_def keyPath_def
    idb_put_def idb_delete_def taskData_def settingRecord_def graphRecord_def
    theme_setting_def keyless_setting_def empty_graph_def js_or_def
  \<comment> \<open>the stages, evaluated\<close>
  have notes_a: "for_each saveNote [alpha_note] structured_state = (Inr Undefined, ?A)"
    by (simp add: saveNote_alpha_structured)
  have null_a: "saveNote Null ?A = (Inl TypeError, ?A)"
    by (simp add: saveNote_def)
  have tasks_b: "for_each saveTask [?t1] ?A = (Inr Undefined, ?B)"
    unfolding saveNote_alpha_structured
    by (simp add: ev structured_state_def ascii_def split: prod.splits)
  have null_b: "saveTask Null ?B = (Inl TypeError, ?B)"
    by (simp add: saveTask_def)
  have graph: "saveKnowledgeGraph empty_graph fallback_state
                 = (Inl TypeError, snd (saveKnowledgeGraph empty_graph fallback_state))"
    unfolding pair_with_snd
    by (simp add: ev fallback_state_def)
  have settings_c: "for_each importSetting [theme_setting] ?A = (Inr Undefined, ?C)"
    unfolding saveNote_alpha_structured
    by (simp add: ev structured_state_def ascii_def split: prod.splits)
  have keyless: "importSetting keyless_setting ?C = (Inl DataError, ?D)"
    unfolding pair_with_snd saveNote_alpha_structured
    by (simp add: ev structured_state_def ascii_def)
  \<comment> \<open>what the stages leave\<close>
  have st_a: "stored ''notes'' ?A =
       Some [noteData alpha_note (Str (ascii ''n1'')) (Str (sample_clock 0)) (Str (sample_clock 1))]"
    unfolding saveNote_alpha_structured by (simp add: stored_def structured_state_def)
  have st_b: "stored ''notes'' ?B =
       Some [noteData alpha_note (Str (ascii ''n1'')) (Str (sample_clock 0)) (Str (sample_clock 1))]"
    "stored ''tasks'' ?B =
       Some [taskData ?t1 (Str (ascii ''t1'')) (Str (sample_clock 2)) (Str (sample_clock 3))]"
    unfolding saveNote_alpha_structured
    by (simp_all add: ev stored_def structured_state_def ascii_def numeral_2_eq_2 numeral_3_eq_3)
  have st_c: "stored ''settings'' ?C =
       Some [settingRecord (Str (ascii ''theme'')) (Str (ascii ''dark'')) (Str (sample_clock 2))]"
    unfolding saveNote_alpha_structured
    by (simp add: ev stored_def structured_state_def ascii_def numeral_2_eq_2)
  have st_d: "stored ''notes'' ?D =
       Some [noteData alpha_note (Str (ascii ''n1'')) (Str (sample_clock 0)) (Str (sample_clock 1))]"
    "stored ''settings'' ?D =
       Some [settingRecord (Str (ascii ''theme'')) (Str (ascii ''dark'')) (Str (sample_clock 2))]"
    unfolding saveNote_alpha_structured
    by (simp_all add: ev stored_def structured_state_def ascii_def numeral_2_eq_2)
  \<comment> \<open>the documents\<close>
  have d1: "\<not> nullish no_data_doc" "\<not> truthy (get_prop no_data_doc ''data'')"
    by (simp_all add: no_data_doc_def)
  have d2: "truthy (get_prop broken_doc ''data'')"
    "get_prop (get_prop broken_doc ''data'') ''notes'' = Arr ([alpha_note] @ Null # [beta_note])"
    by (simp_all add: broken_doc_def)
  have d3: "truthy (get_prop broken_tasks_doc ''data'')"
    "for_each_if_array saveNote (get_prop (get_prop broken_tasks_doc ''data'') ''notes'')
       structured_state = (Inr Undefined, ?A)"
    "get_prop (get_prop broken_tasks_doc ''data'') ''tasks'' = Arr ([?t1] @ Null # [])"
    using notes_a by (simp_all add: broken_tasks_doc_def for_each_if_array_def)
  have d4: "truthy (get_prop graph_doc ''data'')"
    "for_each_if_array saveNote (get_prop (get_prop graph_doc ''data'') ''notes'') fallback_state
       = (Inr Undefined, fallback_state)"
    "for_each_if_array saveTask (get_prop (get_prop graph_doc ''data'') ''tasks'') fallback_state
       = (Inr Undefined, fallback_state)"
    "truthy (get_prop (get_prop graph_doc ''data'') ''knowledgeGraph'')"
    "get_prop (get_prop graph_doc ''data'') ''knowledgeGraph'' = empty_graph"
    by (simp_all add: graph_doc_def for_each_if_array_def resolve_def empty_graph_def)
  have d5: "truthy (get_prop broken_settings_doc ''data'')"
    "for_each_if_array saveNote (get_prop (get_prop broken_settings_doc ''data'') ''notes'')
       structured_state = (Inr Undefined, ?A)"
    "for_each_if_array saveTask (get_prop (get_prop broken_settings_doc ''data'') ''tasks'') ?A
       = (Inr Undefined, ?A)"
    "(if truthy (get_prop (get_prop broken_settings_doc ''data'') ''knowledgeGraph'')
      then saveKnowledgeGraph (get_prop (get_prop broken_settings_doc ''data'') ''knowledgeGraph'')
      else resolve Undefined) ?A = (Inr Undefined, ?A)"
    "get_prop (get_prop broken_settings_doc ''data'') ''settings''
       = Arr ([theme_setting] @ keyless_setting # [theme_setting])"
    using notes_a by (simp_all add: broken_settings_doc_def for_each_if_array_def resolve_def)
  have d6: "truthy (get_prop good_doc ''data'')"
    "for_each_if_array saveNote (get_prop (get_prop good_doc ''data'') ''notes'')
       structured_state = (Inr Undefined, ?A)"
    "for_each_if_array saveTask (get_prop (get_prop good_doc ''data'') ''tasks'') ?A
       = (Inr Undefined, ?A)"
    "(if truthy (get_prop (get_prop good_doc ''data'') ''knowledgeGraph'')
      then saveKnowledgeGraph (get_prop (get_prop good_doc ''data'') ''knowledgeGraph'')
      else resolve Undefined) ?A = (Inr Undefined, ?A)"
    "for_each_if_array importSetting (get_prop (get_prop good_doc ''data'') ''settings'') ?A
       = (Inr Undefined, ?C)"
    using notes_a settings_c by (simp_all add: good_doc_def for_each_if_array_def resolve_def)
  \<comment> \<open>the theorem at each document\<close>
  have r1: "importData no_data_doc structured_state
          = (Inl (Error invalid_import_format), structured_state)"
    using importData_failures [where doc = no_data_doc and st = structured_state, THEN conjunct1] d1
    by simp
  have r2: "importData broken_doc structured_state = (Inl TypeError, ?A)"
    using importData_failures [where doc = broken_doc and st = structured_state
      and saved = "[alpha_note]" and bad = Null and rest = "[beta_note]" and ?st1.0 = ?A
      and e = TypeError and ?st2.0 = ?A, THEN conjunct2, THEN conjunct1] d2 notes_a null_a
    by simp
  have r3: "importData broken_tasks_doc structured_state = (Inl TypeError, ?B)"
    using importData_failures [where doc = broken_tasks_doc and st = structured_state
      and ?st0.0 = ?A and saved' = "[?t1]" and bad' = Null and rest' = "[]" and st1' = ?B
      and e' = TypeError and st2' = ?B, THEN conjunct2, THEN conjunct2, THEN conjunct1] d3 tasks_b null_b
    by simp
  have r4: "importData graph_doc fallback_state
          = (Inl TypeError, snd (saveKnowledgeGraph empty_graph fallback_state))"
    using importData_failures [where doc = graph_doc and st = fallback_state
      and sa = fallback_state and sb = fallback_state and eg = TypeError
      and sc = "snd (saveKnowledgeGraph empty_graph fallback_state)", THEN conjunct2, THEN conjunct2, THEN conjunct2, THEN conjunct1] d4 graph
    by simp
  have r5: "importData broken_settings_doc structured_state = (Inl DataError, ?D)"
    using importData_failures [where doc = broken_settings_doc and st = structured_state
      and ta = ?A and tb = ?A and g = Undefined and tc = ?A and kept = "[theme_setting]"
      and failing = keyless_setting and later = "[theme_setting]" and td = ?C
      and es = DataError and te = ?D, THEN conjunct2, THEN conjunct2, THEN conjunct2, THEN conjunct2, THEN conjunct1] d5 settings_c keyless
    by simp
  have r6: "importData good_doc structured_state = (Inr (Bool True), ?C)"
    using importData_failures [where doc = good_doc and st = structured_state
      and ua = ?A and ub = ?A and h = Undefined and uc = ?A and ud = ?C, THEN conjunct2, THEN conjunct2, THEN conjunct2, THEN conjunct2, THEN conjunct2] d6
    by simp
  show ?thesis
    by (simp only: r1 r2 r3 r4 r5 r6 fst_conv snd_conv st_a st_b st_c st_d simp_thms)
qed

subsection \<open>Reading a whole collection\<close>

lemma getNotes_stored:
  assumes "stored ''notes'' st = Some ns"
  shows "fst (getNotes st) = Inr (Arr ns)"
  using assms
  by (auto simp: stored_def getNotes_def performTransaction_def performLocalStorageOperation_def
      js_or_def split: if_splits sum.splits jsval.splits option.splits)

subsection \<open>Searching notes\<close>

lemma starts_with_iff_prefix: "starts_with s t \<longleftrightarrow> prefix t s"
  by (induction s t rule: starts_with.induct) auto

lemma js_includes_iff_sublist: "js_includes s t \<longleftrightarrow> sublist t s"
  by (induction s) (auto simp: starts_with_iff_prefix sublist_Cons_right)

lemma some_elem_tags:
  assumes "list_all is_str tags"
  shows "some_elem (tag_matches lower term) tags =
     Inr (list_ex (\<lambda>tag. sublist term (lower (str_of tag))) tags)"
  using assms
  by (induction tags)
     (auto simp: tag_matches_def js_toLowerCase_def is_str_def str_of_def
        js_includes_iff_sublist split: jsval.splits)

lemma note_matches_search_hit:
  assumes "is_note n"
  shows "note_matches lower (lower query) n = Inr (search_hit lower query n)"
proof -
  from assms obtain t c tags where
    n: "get_prop n ''title'' = Str t" "get_prop n ''content'' = Str c"
       "get_prop n ''tags'' = Arr tags" "list_all is_str tags"
    by (auto simp: is_note_def is_str_def split: jsval.splits)
  then have "\<not> nullish n"
    by (cases n) auto
  then show ?thesis
    using n
    by (simp add: note_matches_def search_hit_def js_get_def js_toLowerCase_def js_some_def
        some_elem_tags js_includes_iff_sublist str_of_def elems_of_def)
qed

lemma filter_all_notes:
  assumes "list_all is_note ns"
  shows "filter_all (note_matches lower (lower query)) ns =
     Inr (filter (search_hit lower query) ns)"
  using assms by (induction ns) (simp_all add: note_matches_search_hit)

text \<open>
  C9.  Whichever engine is active, when the notes collection holds the notes \<open>ns\<close>
  (title and content strings, tags an array of strings), \<open>searchNotes(query)\<close> with a
  string query returns exactly the notes of \<open>ns\<close>, in their order, for which the
  lower-cased query is a substring of the lower-cased title, or of the lower-cased
  content, or of at least one lower-cased tag.
\<close>

theorem searchNotes_finds_matching_notes:
  assumes "stored ''notes'' st = Some ns" and "list_all is_note ns"
  shows "fst (searchNotes lower (Str query) st) = Inr (Arr (filter (search_hit lower query) ns))"
proof -
  from getNotes_stored [OF assms(1)] obtain st' where "getNotes st = (Inr (Arr ns), st')"
    by (cases "getNotes st") auto
  then show ?thesis
    using filter_all_notes [OF assms(2), of lower query]
    by (simp add: searchNotes_def await_def settle_def js_toLowerCase_def js_filter_def)
qed

theorem searchNotes_finds_matching_notes_witness:
  "fst (searchNotes ascii_lower (Str (ascii ''cat'')) two_notes_structured) = Inr (Arr [alpha_note])
   \<and> fst (searchNotes ascii_lower (Str (ascii ''feline'')) two_notes_structured) = Inr (Arr [beta_note])
   \<and> fst (searchNotes ascii_lower (Str (ascii ''CAT'')) two_notes_fallback) = Inr (Arr [alpha_note])
   \<and> fst (searchNotes ascii_lower (Str (ascii ''feline'')) two_notes_fallback) = Inr (Arr [beta_note])"
proof -
  have s: "stored ''notes'' two_notes_structured = Some [alpha_note, beta_note]"
    and f: "stored ''notes'' two_notes_fallback = Some [alpha_note, beta_note]"
    by (simp_all add: stored_def two_notes_structured_def two_notes_fallback_def
        structured_state_def fallback_state_def parse_item_def)
  have n: "list_all is_note [alpha_note, beta_note]"
    by (simp add: is_note_def is_str_def alpha_note_def beta_note_def)
  have hits:
    "filter (search_hit ascii_lower (ascii ''cat'')) [alpha_note, beta_note] = [alpha_note]"
    "filter (search_hit ascii_lower (ascii ''CAT'')) [alpha_note, beta_note] = [alpha_note]"
    "filter (search_hit ascii_lower (ascii ''feline'')) [alpha_note, beta_note] = [beta_note]"
    by (simp_all add: search_hit_def alpha_note_def beta_note_def str_of_def elems_of_def
        ascii_lower_def ascii_def sublist_code(3))
  show ?thesis
    using searchNotes_finds_matching_notes [OF s n, of ascii_lower]
      searchNotes_finds_matching_notes [OF f n, of ascii_lower] hits
    by simp
qed


subsection \<open>Deleting a note\<close>

lemma strict_eq_Str: "strict_eq a (Str s) \<longleftrightarrow> a = Str s"
  by (cases a) auto

lemma filter_all_prop_is_not:
  assumes "\<forall>n\<in>set ns. \<not> nullish n"
  shows "filter_all (prop_is_not p (Str s)) ns = Inr (filter (\<lambda>n. get_prop n p \<noteq> Str s) ns)"
  using assms by (induction ns) (simp_all add: prop_is_not_def js_get_def strict_eq_Str)

lemma json_copy_elems_filter:
  assumes "json_copy_elems xs = xs"
  shows "json_copy_elems (filter P xs) = filter P xs"
  using assms by (induction xs) (auto split: if_splits)

lemma stored_fallback_json:
  assumes "useLocalStorage st" and "stored name st = Some ns" and "well_formed name st"
  shows "parse_item (localStorage st) name = Inr (Arr ns) \<and> json_copy_elems ns = ns"
  using assms
  by (auto simp: stored_def well_formed_def parse_item_def is_json_def
      split: option.splits stored_text.splits jsval.splits sum.splits)

lemma deleteNote_fallback:
  assumes "useLocalStorage st" and "stored ''notes'' st = Some ns"
    and "well_formed ''notes'' st" and "\<forall>n\<in>set ns. \<not> nullish n"
  shows "deleteNote (Str s) st =
     (Inr Undefined,
      st\<lparr>localStorage := (localStorage st)
           (''notes'' \<mapsto> JsonText (Arr (filter (\<lambda>n. get_prop n ''id'' \<noteq> Str s) ns)))\<rparr>)"
proof -
  from stored_fallback_json [OF assms(1-3)]
  have p: "parse_item (localStorage st) ''notes'' = Inr (Arr ns)" and j: "json_copy_elems ns = ns"
    by simp_all
  show ?thesis
    using assms(1) p filter_all_prop_is_not [OF assms(4), of "''id''" s]
      json_copy_elems_filter [OF j, of "\<lambda>n. get_prop n ''id'' \<noteq> Str s"]
    by (simp add: deleteNote_def await_def resolve_def performTransaction_def
        performLocalStorageOperation_def js_filter_def stringify_def)
qed

lemma map_snd_idb_delete:
  assumes "store_ok kp xs"
  shows "map snd (idb_delete k xs) = filter (\<lambda>n. get_prop n kp \<noteq> k) (map snd xs)"
  using assms
  by (induction xs) (auto simp: idb_delete_def store_ok_def)

lemma deleteNote_structured:
  assumes "\<not> useLocalStorage st" and "db st = Some d"
  shows "deleteNote (Str s) st =
     (Inr Undefined, st\<lparr>db := Some (d(''notes'' := idb_delete (Str s) (d ''notes'')))\<rparr>)"
  using assms
  by (simp add: deleteNote_def await_def resolve_def performTransaction_def)

text \<open>
  C10.  Whichever engine is active, when the notes collection is as the engine keeps it
  and holds the records \<open>ns\<close> (none of them \<open>null\<close>), \<open>deleteNote\<close> with a string id
  completes without an error, and \<open>getNotes\<close> afterwards returns the records of \<open>ns\<close>
  whose id is not the deleted one.  When no record has that id, every collection is
  what it was before the call.
\<close>

theorem deleteNote_removes_only_that_id:
  assumes "stored ''notes'' st = Some ns" and "well_formed ''notes'' st"
    and "\<forall>n\<in>set ns. \<not> nullish n"
  shows "fst (deleteNote (Str s) st) = Inr Undefined
       \<and> fst (getNotes (snd (deleteNote (Str s) st)))
           = Inr (Arr (filter (\<lambda>n. get_prop n ''id'' \<noteq> Str s) ns))
       \<and> ((\<forall>n\<in>set ns. get_prop n ''id'' \<noteq> Str s) \<longrightarrow>
            (\<forall>name. stored name (snd (deleteNote (Str s) st)) = stored name st))"
proof (cases "useLocalStorage st")
  case True
  let ?ns' = "filter (\<lambda>n. get_prop n ''id'' \<noteq> Str s) ns"
  let ?st' = "st\<lparr>localStorage := (localStorage st)(''notes'' \<mapsto> JsonText (Arr ?ns'))\<rparr>"
  have del: "deleteNote (Str s) st = (Inr Undefined, ?st')"
    using True assms by (rule deleteNote_fallback)
  have after: "stored ''notes'' ?st' = Some ?ns'"
    using True by (simp add: stored_def parse_item_def)
  have same: "stored name ?st' = stored name st" if "?ns' = ns" for name
    using True that assms(1) after by (cases "name = ''notes''") (simp_all add: stored_def parse_item_def)
  have "?ns' = ns" if "\<forall>n\<in>set ns. get_prop n ''id'' \<noteq> Str s"
    using that by (simp add: filter_id_conv)
  with del getNotes_stored [OF after] same show ?thesis
    by simp
next
  case False
  from assms(2) False obtain d where d: "db st = Some d" and ok: "store_ok ''id'' (d ''notes'')"
    by (auto simp: well_formed_def keyPath_def split: option.splits)
  from assms(1) False d have ns: "ns = map snd (d ''notes'')"
    by (simp add: stored_def)
  let ?ns' = "filter (\<lambda>n. get_prop n ''id'' \<noteq> Str s) ns"
  let ?st' = "st\<lparr>db := Some (d(''notes'' := idb_delete (Str s) (d ''notes'')))\<rparr>"
  have del: "deleteNote (Str s) st = (Inr Undefined, ?st')"
    using False d by (rule deleteNote_structured)
  have after: "stored ''notes'' ?st' = Some ?ns'"
    using False ns map_snd_idb_delete [OF ok, of "Str s"] by (simp add: stored_def)
  have keys: "fst kv = get_prop (snd kv) ''id''" if "kv \<in> set (d ''notes'')" for kv
    using ok that by (auto simp: store_ok_def list_all_iff)
  have "idb_delete (Str s) (d ''notes'') = d ''notes''"
    if "\<forall>n\<in>set ns. get_prop n ''id'' \<noteq> Str s"
    unfolding idb_delete_def filter_id_conv using that keys by (auto simp: ns)
  then have same: "?st' = st" if "\<forall>n\<in>set ns. get_prop n ''id'' \<noteq> Str s"
    using that d by simp
  from del getNotes_stored [OF after] same show ?thesis
    by auto
qed

theorem deleteNote_removes_only_that_id_witness:
  "fst (deleteNote (Str (ascii ''n1'')) two_notes_structured) = Inr Undefined
   \<and> fst (getNotes (snd (deleteNote (Str (ascii ''n1'')) two_notes_structured))) = Inr (Arr [beta_note])
   \<and> fst (deleteNote (Str (ascii ''n9'')) two_notes_fallback) = Inr Undefined
   \<and> fst (getNotes (snd (deleteNote (Str (ascii ''n9'')) two_notes_fallback)))
       = Inr (Arr [alpha_note, beta_note])
   \<and> (\<forall>name. stored name (snd (deleteNote (Str (ascii ''n9'')) two_notes_fallback))
               = stored name two_notes_fallback)"
proof -
  have s: "stored ''notes'' two_notes_structured = Some [alpha_note, beta_note]"
    and f: "stored ''notes'' two_notes_fallback = Some [alpha_note, beta_note]"
    by (simp_all add: stored_def two_notes_structured_def two_notes_fallback_def
        structured_state_def fallback_state_def parse_item_def)
  have ws: "well_formed ''notes'' two_notes_structured"
    by (simp add: well_formed_def two_notes_structured_def structured_state_def store_ok_def
        keyPath_def alpha_note_def beta_note_def ascii_def)
  have wf: "well_formed ''notes'' two_notes_fallback"
    by (simp add: well_formed_def two_notes_fallback_def fallback_state_def is_json_def
        alpha_note_def beta_note_def)
  have n: "\<forall>n\<in>set [alpha_note, beta_note]. \<not> nullish n"
    by (simp add: alpha_note_def beta_note_def)
  have ids: "filter (\<lambda>n. get_prop n ''id'' \<noteq> Str (ascii ''n1'')) [alpha_note, beta_note] = [beta_note]"
    "filter (\<lambda>n. get_prop n ''id'' \<noteq> Str (ascii ''n9'')) [alpha_note, beta_note]
       = [alpha_note, beta_note]"
    "\<forall>n\<in>set [alpha_note, beta_note]. get_prop n ''id'' \<noteq> Str (ascii ''n9'')"
    by (simp_all add: alpha_note_def beta_note_def ascii_def)
  show ?thesis
    using deleteNote_removes_only_that_id [OF s ws n, of "ascii ''n1''"]
      deleteNote_removes_only_that_id [OF f wf n, of "ascii ''n9''"] ids
    by simp
qed


subsection \<open>Export, clear and import on the object stores\<close>

lemma getTasks_structured:
  assumes "\<not> useLocalStorage st" "db st = Some d"
  shows "getTasks st = (Inr (Arr (map snd (d ''tasks''))), st)"
  using assms by (simp add: getTasks_def performTransaction_def)

lemma getNotes_structured:
  assumes "\<not> useLocalStorage st" "db st = Some d"
  shows "getNotes st = (Inr (Arr (map snd (d ''notes''))), st)"
  using assms by (simp add: getNotes_def performTransaction_def)

lemma getAllSettings_structured:
  assumes "\<not> useLocalStorage st" "db st = Some d"
  shows "getAllSettings st = (Inr (Arr (map snd (d ''settings''))), st)"
  using assms by (simp add: getAllSettings_def performTransaction_def)

lemma getKnowledgeGraph_structured:
  assumes "\<not> useLocalStorage st" "db st = Some d"
  shows "getKnowledgeGraph st = (Inr (idb_lookup (d ''knowledge_graph'') (Str main_graph)), st)"
  using assms by (simp add: getKnowledgeGraph_def performTransaction_def)

lemma exportData_structured:
  assumes "\<not> useLocalStorage st" "db st = Some d"
  shows "exportData st =
     (Inr (Obj [(''version'', Str version_1_0),
                (''exportDate'', Str (clock st (ticks st))),
                (''data'', Obj [(''notes'', Arr (map snd (d ''notes''))),
                                (''tasks'', Arr (map snd (d ''tasks''))),
                                (''knowledgeGraph'',
                                   idb_lookup (d ''knowledge_graph'') (Str main_graph)),
                                (''settings'', Arr (map snd (d ''settings'')))])]),
      st\<lparr>ticks := Suc (ticks st)\<rparr>)"
  by (simp add: exportData_def getNotes_structured [OF assms] getTasks_structured [OF assms]
      getKnowledgeGraph_structured [OF assms] getAllSettings_structured [OF assms]
      toISOString_now_def)

lemma clearStore_structured:
  assumes "\<not> useLocalStorage st" "db st = Some d"
  shows "clearStore name st = (Inr Undefined, st\<lparr>db := Some (d(name := []))\<rparr>)"
  using assms by (simp add: clearStore_def performTransaction_def)

lemma clearAllData_structured:
  assumes "\<not> useLocalStorage st" "db st = Some d"
  shows "clearAllData st =
     (Inr Undefined,
      st\<lparr>db := Some (d(''notes'' := [], ''tasks'' := [], ''knowledge_graph'' := [],
                        ''settings'' := []))\<rparr>)"
  using assms by (simp add: clearAllData_def clearStore_structured)

lemma saveKnowledgeGraph_effect:
  assumes "\<not> useLocalStorage st" and "db st = Some d" and "\<not> nullish g"
  shows "\<exists>r st1 G. saveKnowledgeGraph g st = (Inr r, st1)
         \<and> \<not> useLocalStorage st1 \<and> db st1 = Some (d(''knowledge_graph'' := G))"
  using assms
  by (simp add: saveKnowledgeGraph_def toISOString_now_def await_def resolve_def
      performTransaction_def keyPath_def graphRecord_def) blast

lemma saveSetting_effect:
  assumes "\<not> useLocalStorage st" and "db st = Some d" and "valid_key key"
  shows "\<exists>r st1 Z. saveSetting key val st = (Inr r, st1)
         \<and> \<not> useLocalStorage st1 \<and> db st1 = Some (d(''settings'' := Z))"
  using assms
  by (simp add: saveSetting_def toISOString_now_def await_def resolve_def
      performTransaction_def keyPath_def settingRecord_def) blast

lemma js_or_keeps: "keeps v p dflt \<Longrightarrow> js_or (get_prop v p) dflt = get_prop v p"
  by (simp add: keeps_def)

lemma note_summary_noteData:
  assumes "saved_note v"
  shows "note_summary (noteData v (get_prop v ''id'') c u) = note_summary v"
  using assms by (simp add: note_summary_def saved_note_def get_prop_noteData js_or_keeps)

lemma task_summary_taskData:
  assumes "saved_task v"
  shows "task_summary (taskData v (get_prop v ''id'') c u) = task_summary v"
  using assms by (simp add: task_summary_def saved_task_def get_prop_taskData js_or_keeps)

lemma store_ok_Cons:
  "store_ok kp ((k, v) # xs) \<longleftrightarrow>
     k \<notin> fst ` set xs \<and> valid_key k \<and> get_prop v kp = k \<and> store_ok kp xs"
  by (auto simp: store_ok_def)

lemma for_each_saveNote_structured:
  assumes "\<not> useLocalStorage s" and "db s = Some e"
    and "store_ok ''id'' xs" and "list_all (\<lambda>kv. saved_note (snd kv)) xs"
  shows "\<exists>s' X. for_each saveNote (map snd xs) s = (Inr Undefined, s')
         \<and> \<not> useLocalStorage s' \<and> db s' = Some (e(''notes'' := X))
         \<and> (\<forall>k. map_option note_summary (map_of X k) =
                  (if k \<in> fst ` set xs then map_option note_summary (map_of xs k)
                   else map_option note_summary (map_of (e ''notes'') k)))"
  using assms
proof (induction xs arbitrary: s e)
  case Nil
  have "e(''notes'' := e ''notes'') = e" by simp
  with Nil show ?case
    by (intro exI [of _ s] exI [of _ "e ''notes''"]) simp
next
  case (Cons kv xs)
  obtain k v where kv: "kv = (k, v)" by (cases kv)
  from Cons.prems kv have ok: "k \<notin> fst ` set xs" "valid_key k" "get_prop v ''id'' = k"
    "store_ok ''id'' xs" and sv: "saved_note v" and rest: "list_all (\<lambda>kv. saved_note (snd kv)) xs"
    by (simp_all add: store_ok_Cons)
  from sv have tr: "truthy (get_prop v ''id'')" by (simp add: saved_note_def)
  then have nn: "\<not> nullish v" by (cases v) auto
  from saveNote_effect [OF Cons.prems(1,2) nn] ok tr obtain c i s1 where
    s1: "saveNote v s = (Inr (noteData v k c (Str (clock s i))), s1)"
    and b1: "\<not> useLocalStorage s1"
    and d1: "db s1 = Some (e(''notes'' := idb_put k (noteData v k c (Str (clock s i))) (e ''notes'')))"
    by auto
  let ?nd = "noteData v k c (Str (clock s i))"
  let ?e1 = "e(''notes'' := idb_put k ?nd (e ''notes''))"
  from Cons.IH [OF b1 d1 ok(4) rest] obtain s' X where
    f: "for_each saveNote (map snd xs) s1 = (Inr Undefined, s')"
    and b': "\<not> useLocalStorage s'"
    and d': "db s' = Some (?e1(''notes'' := X))"
    and m: "\<And>k'. map_option note_summary (map_of X k') =
                  (if k' \<in> fst ` set xs then map_option note_summary (map_of xs k')
                   else map_option note_summary (map_of (?e1 ''notes'') k'))"
    by blast
  have sum: "note_summary ?nd = note_summary v"
    using note_summary_noteData [OF sv] ok(3) by simp
  have "for_each saveNote (map snd (kv # xs)) s = (Inr Undefined, s')"
    using s1 f kv by simp
  moreover have "db s' = Some (e(''notes'' := X))"
    using d' by simp
  moreover have "map_option note_summary (map_of X k') =
        (if k' \<in> fst ` set (kv # xs) then map_option note_summary (map_of (kv # xs) k')
         else map_option note_summary (map_of (e ''notes'') k'))" for k'
    using m [of k'] ok(1) sum kv by (auto simp: map_of_idb_put)
  ultimately show ?case
    using b' by blast
qed

lemma for_each_saveTask_structured:
  assumes "\<not> useLocalStorage s" and "db s = Some e"
    and "store_ok ''id'' xs" and "list_all (\<lambda>kv. saved_task (snd kv)) xs"
  shows "\<exists>s' X. for_each saveTask (map snd xs) s = (Inr Undefined, s')
         \<and> \<not> useLocalStorage s' \<and> db s' = Some (e(''tasks'' := X))
         \<and> (\<forall>k. map_option task_summary (map_of X k) =
                  (if k \<in> fst ` set xs then map_option task_summary (map_of xs k)
                   else map_option task_summary (map_of (e ''tasks'') k)))"
  using assms
proof (induction xs arbitrary: s e)
  case Nil
  have "e(''tasks'' := e ''tasks'') = e" by simp
  with Nil show ?case
    by (intro exI [of _ s] exI [of _ "e ''tasks''"]) simp
next
  case (Cons kv xs)
  obtain k v where kv: "kv = (k, v)" by (cases kv)
  from Cons.prems kv have ok: "k \<notin> fst ` set xs" "valid_key k" "get_prop v ''id'' = k"
    "store_ok ''id'' xs" and sv: "saved_task v" and rest: "list_all (\<lambda>kv. saved_task (snd kv)) xs"
    by (simp_all add: store_ok_Cons)
  from sv have tr: "truthy (get_prop v ''id'')" by (simp add: saved_task_def)
  then have nn: "\<not> nullish v" by (cases v) auto
  from saveTask_effect [OF Cons.prems(1,2) nn] ok tr obtain c i s1 where
    s1: "saveTask v s = (Inr (taskData v k c (Str (clock s i))), s1)"
    and b1: "\<not> useLocalStorage s1"
    and d1: "db s1 = Some (e(''tasks'' := idb_put k (taskData v k c (Str (clock s i))) (e ''tasks'')))"
    by auto
  let ?nd = "taskData v k c (Str (clock s i))"
  let ?e1 = "e(''tasks'' := idb_put k ?nd (e ''tasks''))"
  from Cons.IH [OF b1 d1 ok(4) rest] obtain s' X where
    f: "for_each saveTask (map snd xs) s1 = (Inr Undefined, s')"
    and b': "\<not> useLocalStorage s'"
    and d': "db s' = Some (?e1(''tasks'' := X))"
    and m: "\<And>k'. map_option task_summary (map_of X k') =
                  (if k' \<in> fst ` set xs then map_option task_summary (map_of xs k')
                   else map_option task_summary (map_of (?e1 ''tasks'') k'))"
    by blast
  have sum: "task_summary ?nd = task_summary v"
    using task_summary_taskData [OF sv] ok(3) by simp
  have "for_each saveTask (map snd (kv # xs)) s = (Inr Undefined, s')"
    using s1 f kv by simp
  moreover have "db s' = Some (e(''tasks'' := X))"
    using d' by simp
  moreover have "map_option task_summary (map_of X k') =
        (if k' \<in> fst ` set (kv # xs) then map_option task_summary (map_of (kv # xs) k')
         else map_option task_summary (map_of (e ''tasks'') k'))" for k'
    using m [of k'] ok(1) sum kv by (auto simp: map_of_idb_put)
  ultimately show ?case
    using b' by blast
qed

lemma for_each_saveSetting_structured:
  assumes "\<not> useLocalStorage s" and "db s = Some e" and "store_ok ''key'' xs"
  shows "\<exists>s' Z. for_each importSetting (map snd xs) s = (Inr Undefined, s')
         \<and> \<not> useLocalStorage s' \<and> db s' = Some (e(''settings'' := Z))"
  using assms
proof (induction xs arbitrary: s e)
  case Nil
  have "e(''settings'' := e ''settings'') = e" by simp
  with Nil show ?case
    by (intro exI [of _ s] exI [of _ "e ''settings''"]) simp
next
  case (Cons kv xs)
  obtain k v where kv: "kv = (k, v)" by (cases kv)
  from Cons.prems kv have ok: "valid_key k" "get_prop v ''key'' = k" "store_ok ''key'' xs"
    by (simp_all add: store_ok_Cons)
  then have nn: "\<not> nullish v" by (cases v) auto
  from saveSetting_effect [OF Cons.prems(1,2), of "get_prop v ''key''" "get_prop v ''value''"] ok
  obtain r s1 Z1 where
    s1: "saveSetting (get_prop v ''key'') (get_prop v ''value'') s = (Inr r, s1)"
    and b1: "\<not> useLocalStorage s1" and d1: "db s1 = Some (e(''settings'' := Z1))"
    by auto
  from Cons.IH [OF b1 d1 ok(3)] obtain s' Z where
    f: "for_each importSetting (map snd xs) s1 = (Inr Undefined, s')"
    and b': "\<not> useLocalStorage s'"
    and d': "db s' = Some ((e(''settings'' := Z1))(''settings'' := Z))"
    by blast
  have "for_each importSetting (map snd (kv # xs)) s = (Inr Undefined, s')"
    using s1 nn kv f by (simp add: importSetting_def)
  moreover have "db s' = Some (e(''settings'' := Z))"
    using d' by simp
  ultimately show ?case
    using b' by blast
qed

subsection \<open>Every save keeps the shape that the round trip relies on\<close>

lemma js_or_idem: "js_or (js_or a dflt) dflt = js_or a dflt"
  by (simp add: js_or_def)

lemma saved_note_noteData: "truthy i \<Longrightarrow> saved_note (noteData n i c u)"
  by (simp add: saved_note_def keeps_def get_prop_noteData js_or_idem)

lemma saved_task_taskData: "truthy i \<Longrightarrow> saved_task (taskData t i c u)"
  by (simp add: saved_task_def keeps_def get_prop_taskData js_or_idem)

lemma list_all_idb_put:
  assumes "list_all P xs" and "P (k, v)"
  shows "list_all P (idb_put k v xs)"
  using assms
  by (auto simp: list_all_iff idb_put_def idb_delete_def set_insert_sorted)

text \<open>
  A note saved on the object store leaves the notes store consistent with its key path
  and every note in it of the saved shape; the same holds of a task and the tasks store.
  (A generated id is never the empty string.)
\<close>

lemma saveNote_keeps_shape:
  assumes "\<not> useLocalStorage st" and "db st = Some d" and "\<not> nullish n"
    and "truthy (get_prop n ''id'') \<longrightarrow> valid_key (get_prop n ''id'')"
    and "\<not> truthy (get_prop n ''id'') \<longrightarrow> idsrc st (idn st) \<noteq> []"
    and "store_ok ''id'' (d ''notes'')"
    and "list_all (\<lambda>kv. saved_note (snd kv)) (d ''notes'')"
  shows "\<exists>r st1 X. saveNote n st = (Inr r, st1) \<and> \<not> useLocalStorage st1
         \<and> db st1 = Some (d(''notes'' := X))
         \<and> store_ok ''id'' X \<and> list_all (\<lambda>kv. saved_note (snd kv)) X"
proof -
  define kid where "kid = (if truthy (get_prop n ''id'') then get_prop n ''id''
                           else Str (idsrc st (idn st)))"
  have kid: "valid_key kid" "truthy kid"
    using assms(4,5) by (auto simp: kid_def)
  from saveNote_effect [OF assms(1-4)] obtain c i st1 where
    s: "saveNote n st = (Inr (noteData n kid c (Str (clock st i))), st1)"
    and b: "\<not> useLocalStorage st1"
    and d: "db st1 = Some (d(''notes'' :=
               idb_put kid (noteData n kid c (Str (clock st i))) (d ''notes'')))"
    unfolding kid_def by blast
  let ?r = "noteData n kid c (Str (clock st i))"
  have "store_ok ''id'' (idb_put kid ?r (d ''notes''))"
    using assms(6) kid(1) by (rule store_ok_idb_put) (simp add: get_prop_noteData)
  moreover have "list_all (\<lambda>kv. saved_note (snd kv)) (idb_put kid ?r (d ''notes''))"
    using assms(7) kid(2) by (intro list_all_idb_put) (simp_all add: saved_note_noteData)
  ultimately show ?thesis
    using s b d by blast
qed

lemma saveTask_keeps_shape:
  assumes "\<not> useLocalStorage st" and "db st = Some d" and "\<not> nullish t"
    and "truthy (get_prop t ''id'') \<longrightarrow> valid_key (get_prop t ''id'')"
    and "\<not> truthy (get_prop t ''id'') \<longrightarrow> idsrc st (idn st) \<noteq> []"
    and "store_ok ''id'' (d ''tasks'')"
    and "list_all (\<lambda>kv. saved_task (snd kv)) (d ''tasks'')"
  shows "\<exists>r st1 X. saveTask t st = (Inr r, st1) \<and> \<not> useLocalStorage st1
         \<and> db st1 = Some (d(''tasks'' := X))
         \<and> store_ok ''id'' X \<and> list_all (\<lambda>kv. saved_task (snd kv)) X"
proof -
  define kid where "kid = (if truthy (get_prop t ''id'') then get_prop t ''id''
                           else Str (idsrc st (idn st)))"
  have kid: "valid_key kid" "truthy kid"
    using assms(4,5) by (auto simp: kid_def)
  from saveTask_effect [OF assms(1-4)] obtain c i st1 where
    s: "saveTask t st = (Inr (taskData t kid c (Str (clock st i))), st1)"
    and b: "\<not> useLocalStorage st1"
    and d: "db st1 = Some (d(''tasks'' :=
               idb_put kid (taskData t kid c (Str (clock st i))) (d ''tasks'')))"
    unfolding kid_def by blast
  let ?r = "taskData t kid c (Str (clock st i))"
  have "store_ok ''id'' (idb_put kid ?r (d ''tasks''))"
    using assms(6) kid(1) by (rule store_ok_idb_put) (simp add: get_prop_taskData)
  moreover have "list_all (\<lambda>kv. saved_task (snd kv)) (idb_put kid ?r (d ''tasks''))"
    using assms(7) kid(2) by (intro list_all_idb_put) (simp_all add: saved_task_taskData)
  ultimately show ?thesis
    using s b d by blast
qed

lemma same_keys:
  assumes "\<And>k. map_option f (map_of xs k) = map_option f (map_of ys k)"
  shows "fst ` set xs = fst ` set ys"
proof -
  have "(map_of xs k = None) = (map_of ys k = None)" for k
    using assms [of k] by (cases "map_of xs k"; cases "map_of ys k") simp_all
  then have "dom (map_of xs) = dom (map_of ys)"
    by (simp add: dom_def)
  then show ?thesis
    by (simp add: dom_map_of_conv_image_fst)
qed

text \<open>
  On the object stores, in any state that saves through the manager produce (each
  store consistent with its key path, each note and task of the shape \<open>saveNote\<close> and
  \<open>saveTask\<close> store), \<open>exportData\<close>, then \<open>clearAllData\<close>, then \<open>importData\<close> of the
  exported document succeeds, and afterwards the notes store and the tasks store hold
  the same ids as before; under each id the note has the id, title, content and tags
  it had, and the task its id, title, description, priority, completed, dueDate and
  relatedNoteId.
\<close>

lemma round_trip_structured:
  assumes "\<not> useLocalStorage st" and "db st = Some d"
    and "store_ok ''id'' (d ''notes'')" and "list_all (\<lambda>kv. saved_note (snd kv)) (d ''notes'')"
    and "store_ok ''id'' (d ''tasks'')" and "list_all (\<lambda>kv. saved_task (snd kv)) (d ''tasks'')"
    and "store_ok ''key'' (d ''settings'')"
  shows "\<exists>st' d'. round_trip st = (Inr (Bool True), st') \<and> db st' = Some d'
         \<and> fst ` set (d' ''notes'') = fst ` set (d ''notes'')
         \<and> fst ` set (d' ''tasks'') = fst ` set (d ''tasks'')
         \<and> (\<forall>k. map_option note_summary (map_of (d' ''notes'') k)
                  = map_option note_summary (map_of (d ''notes'') k))
         \<and> (\<forall>k. map_option task_summary (map_of (d' ''tasks'') k)
                  = map_option task_summary (map_of (d ''tasks'') k))"
proof -
  define g where "g = idb_lookup (d ''knowledge_graph'') (Str main_graph)"
  define doc where "doc =
     Obj [(''version'', Str version_1_0),
          (''exportDate'', Str (clock st (ticks st))),
          (''data'', Obj [(''notes'', Arr (map snd (d ''notes''))),
                          (''tasks'', Arr (map snd (d ''tasks''))),
                          (''knowledgeGraph'', g),
                          (''settings'', Arr (map snd (d ''settings'')))])]"
  define sa where "sa = st\<lparr>ticks := Suc (ticks st)\<rparr>"
  define d0 where "d0 = d(''notes'' := [], ''tasks'' := [], ''knowledge_graph'' := [],
                        ''settings'' := [])"
  define sb where "sb = sa\<lparr>db := Some d0\<rparr>"
  have export: "exportData st = (Inr doc, sa)"
    using exportData_structured [OF assms(1,2)] by (simp add: doc_def sa_def g_def)
  have "\<not> useLocalStorage sa" "db sa = Some d"
    using assms(1,2) by (simp_all add: sa_def)
  then have clear: "clearAllData sa = (Inr Undefined, sb)"
    by (simp add: clearAllData_structured sb_def d0_def)
  have b: "\<not> useLocalStorage sb" "db sb = Some d0"
    using assms(1) by (simp_all add: sb_def sa_def)
  have doc: "\<not> nullish doc" "truthy (get_prop doc ''data'')"
    "get_prop (get_prop doc ''data'') ''notes'' = Arr (map snd (d ''notes''))"
    "get_prop (get_prop doc ''data'') ''tasks'' = Arr (map snd (d ''tasks''))"
    "get_prop (get_prop doc ''data'') ''knowledgeGraph'' = g"
    "get_prop (get_prop doc ''data'') ''settings'' = Arr (map snd (d ''settings''))"
    by (simp_all add: doc_def)
  from for_each_saveNote_structured [OF b assms(3,4)] obtain s1 X where
    f1: "for_each saveNote (map snd (d ''notes'')) sb = (Inr Undefined, s1)"
    and b1: "\<not> useLocalStorage s1" "db s1 = Some (d0(''notes'' := X))"
    and m1: "\<And>k. map_option note_summary (map_of X k) =
                  (if k \<in> fst ` set (d ''notes'')
                   then map_option note_summary (map_of (d ''notes'') k)
                   else map_option note_summary (map_of (d0 ''notes'') k))"
    by blast
  from for_each_saveTask_structured [OF b1 assms(5,6)] obtain s2 Y where
    f2: "for_each saveTask (map snd (d ''tasks'')) s1 = (Inr Undefined, s2)"
    and b2: "\<not> useLocalStorage s2" "db s2 = Some ((d0(''notes'' := X))(''tasks'' := Y))"
    and m2: "\<And>k. map_option task_summary (map_of Y k) =
                  (if k \<in> fst ` set (d ''tasks'')
                   then map_option task_summary (map_of (d ''tasks'') k)
                   else map_option task_summary (map_of ((d0(''notes'' := X)) ''tasks'') k))"
    by blast
  let ?d2 = "(d0(''notes'' := X))(''tasks'' := Y)"
  have "\<exists>r s3 d3. (if truthy g then saveKnowledgeGraph g else resolve Undefined) s2 = (Inr r, s3)
          \<and> \<not> useLocalStorage s3 \<and> db s3 = Some d3
          \<and> d3 ''notes'' = X \<and> d3 ''tasks'' = Y"
  proof (cases "truthy g")
    case True
    then have "\<not> nullish g" by (cases g) auto
    from saveKnowledgeGraph_effect [OF b2 this] obtain r s3 G where
      "saveKnowledgeGraph g s2 = (Inr r, s3)" "\<not> useLocalStorage s3"
      "db s3 = Some (?d2(''knowledge_graph'' := G))"
      by blast
    with True show ?thesis by simp
  next
    case False
    with b2 show ?thesis by (simp add: resolve_def)
  qed
  then obtain r3 s3 d3 where
    f3: "(if truthy g then saveKnowledgeGraph g else resolve Undefined) s2 = (Inr r3, s3)"
    and b3: "\<not> useLocalStorage s3" "db s3 = Some d3"
    and k3: "d3 ''notes'' = X" "d3 ''tasks'' = Y"
    by blast
  from for_each_saveSetting_structured [OF b3 assms(7)] obtain s4 Z where
    f4: "for_each importSetting (map snd (d ''settings'')) s3 = (Inr Undefined, s4)"
    and b4: "db s4 = Some (d3(''settings'' := Z))"
    by blast
  have import: "importData doc sb = (Inr (Bool True), s4)"
  proof (cases "truthy g")
    case True
    with f3 have "saveKnowledgeGraph g s2 = (Inr r3, s3)" by simp
    with True show ?thesis
      by (simp add: importData_def doc for_each_if_array_def await_def resolve_def f1 f2 f4)
  next
    case False
    with f3 have "s3 = s2" by (simp add: resolve_def)
    with False show ?thesis
      using f4
      by (simp add: importData_def doc for_each_if_array_def await_def resolve_def f1 f2)
  qed
  have rt: "round_trip st = (Inr (Bool True), s4)"
    by (simp add: round_trip_def await_def export clear import)
  let ?d' = "d3(''settings'' := Z)"
  have x: "?d' ''notes'' = X" and y: "?d' ''tasks'' = Y"
    using k3 by simp_all
  have n: "map_option note_summary (map_of (?d' ''notes'') k)
             = map_option note_summary (map_of (d ''notes'') k)" for k
  proof (cases "k \<in> fst ` set (d ''notes'')")
    case True
    then show ?thesis by (simp only: x m1 if_True)
  next
    case False
    then have none: "map_of (d ''notes'') k = None" by (simp add: map_of_eq_None_iff)
    have "map_option note_summary (map_of (?d' ''notes'') k) = map_option note_summary (map_of X k)"
      by (simp only: x)
    also have "\<dots> = map_option note_summary (map_of (d0 ''notes'') k)"
      using False by (simp only: m1 if_False)
    also have "\<dots> = None"
      by (simp add: d0_def)
    finally show ?thesis
      using none by simp
  qed
  have t: "map_option task_summary (map_of (?d' ''tasks'') k)
             = map_option task_summary (map_of (d ''tasks'') k)" for k
  proof (cases "k \<in> fst ` set (d ''tasks'')")
    case True
    then show ?thesis by (simp only: y m2 if_True)
  next
    case False
    then have none: "map_of (d ''tasks'') k = None" by (simp add: map_of_eq_None_iff)
    have "map_option task_summary (map_of (?d' ''tasks'') k) = map_option task_summary (map_of Y k)"
      by (simp only: y)
    also have "\<dots> = map_option task_summary (map_of ((d0(''notes'' := X)) ''tasks'') k)"
      using False by (simp only: m2 if_False)
    also have "\<dots> = None"
      by (simp add: d0_def)
    finally show ?thesis
      using none by simp
  qed
  have nk: "fst ` set (?d' ''notes'') = fst ` set (d ''notes'')"
    using n by (rule same_keys)
  have tk: "fst ` set (?d' ''tasks'') = fst ` set (d ''tasks'')"
    using t by (rule same_keys)
  from rt b4 nk tk n t show ?thesis
    by blast
qed

lemma round_trip_two_notes_structured:
  "\<exists>st' d'. round_trip two_notes_structured = (Inr (Bool True), st') \<and> db st' = Some d'
     \<and> fst ` set (d' ''notes'') = {Str (ascii ''n1''), Str (ascii ''n2'')}
     \<and> map_option note_summary (map_of (d' ''notes'') (Str (ascii ''n1'')))
         = Some (note_summary alpha_note)
     \<and> map_option note_summary (map_of (d' ''notes'') (Str (ascii ''n2'')))
         = Some (note_summary beta_note)"
proof -
  let ?d = "(\<lambda>storeName. [])(''notes'' :=
              [(Str (ascii ''n1''), alpha_note), (Str (ascii ''n2''), beta_note)])"
  have ne: "Str (ascii ''n2'') \<noteq> Str (ascii ''n1'')"
    by (simp add: ascii_def)
  have h1: "\<not> useLocalStorage two_notes_structured"
    and h2: "db two_notes_structured = Some ?d"
    by (simp_all add: two_notes_structured_def structured_state_def)
  have h3: "store_ok ''id'' (?d ''notes'')"
    using ne by (simp add: store_ok_def alpha_note_def beta_note_def)
  have h4: "list_all (\<lambda>kv. saved_note (snd kv)) (?d ''notes'')"
    by (simp add: saved_note_def keeps_def js_or_def alpha_note_def beta_note_def
        untitled_note_def ascii_def)
  have h5: "store_ok ''id'' (?d ''tasks'')"
    and h6: "list_all (\<lambda>kv. saved_task (snd kv)) (?d ''tasks'')"
    and h7: "store_ok ''key'' (?d ''settings'')"
    by (simp_all add: store_ok_def)
  from round_trip_structured [OF h1 h2 h3 h4 h5 h6 h7]
  obtain st' where "\<exists>d'. round_trip two_notes_structured = (Inr (Bool True), st')
         \<and> db st' = Some d'
         \<and> fst ` set (d' ''notes'') = fst ` set (?d ''notes'')
         \<and> fst ` set (d' ''tasks'') = fst ` set (?d ''tasks'')
         \<and> (\<forall>k. map_option note_summary (map_of (d' ''notes'') k)
                  = map_option note_summary (map_of (?d ''notes'') k))
         \<and> (\<forall>k. map_option task_summary (map_of (d' ''tasks'') k)
                  = map_option task_summary (map_of (?d ''tasks'') k))" ..
  then obtain d' where all: "round_trip two_notes_structured = (Inr (Bool True), st')
         \<and> db st' = Some d'
         \<and> fst ` set (d' ''notes'') = fst ` set (?d ''notes'')
         \<and> fst ` set (d' ''tasks'') = fst ` set (?d ''tasks'')
         \<and> (\<forall>k. map_option note_summary (map_of (d' ''notes'') k)
                  = map_option note_summary (map_of (?d ''notes'') k))
         \<and> (\<forall>k. map_option task_summary (map_of (d' ''tasks'') k)
                  = map_option task_summary (map_of (?d ''tasks'') k))" ..
  from all have rt: "round_trip two_notes_structured = (Inr (Bool True), st')"
    by (rule conjunct1)
  from all have rt2: "db st' = Some d'"
    by (rule conjunct2 [THEN conjunct1])
  from all have keys: "fst ` set (d' ''notes'') = fst ` set (?d ''notes'')"
    by (rule conjunct2 [THEN conjunct2, THEN conjunct1])
  from all have sums: "\<forall>k. map_option note_summary (map_of (d' ''notes'') k)
                  = map_option note_summary (map_of (?d ''notes'') k)"
    by (rule conjunct2 [THEN conjunct2, THEN conjunct2, THEN conjunct2, THEN conjunct1])
  have k: "fst ` set (?d ''notes'') = {Str (ascii ''n1''), Str (ascii ''n2'')}"
    by simp
  have s1: "map_option note_summary (map_of (?d ''notes'') (Str (ascii ''n1'')))
         = Some (note_summary alpha_note)"
    by simp
  have s2: "map_option note_summary (map_of (?d ''notes'') (Str (ascii ''n2'')))
         = Some (note_summary beta_note)"
    using ne by simp
  have "fst ` set (d' ''notes'') = {Str (ascii ''n1''), Str (ascii ''n2'')}"
    by (simp only: keys k)
  moreover have "map_option note_summary (map_of (d' ''notes'') (Str (ascii ''n1'')))
         = Some (note_summary alpha_note)"
    using sums [rule_format, of "Str (ascii ''n1'')"] by (simp only: s1)
  moreover have "map_option note_summary (map_of (d' ''notes'') (Str (ascii ''n2'')))
         = Some (note_summary beta_note)"
    using sums [rule_format, of "Str (ascii ''n2'')"] by (simp only: s2)
  ultimately show ?thesis
    using rt rt2 by (intro exI [of _ st'] exI [of _ d'] conjI)
qed

subsection \<open>The round trip on the fallback engine\<close>

text \<open>
  C7.  The round trip \<open>exportData\<close>, \<open>clearAllData\<close>, \<open>importData\<close> of the exported document
  goes through on the object stores (\<open>round_trip_structured\<close>), but not on the fallback
  engine.  On a fresh profile with \<open>useLocalStorage\<close> set, \<open>exportData\<close> resolves with a
  document whose knowledge graph is the empty graph, \<open>clearAllData\<close> resolves, and
  \<open>importData\<close> of that document rejects with a TypeError, from the \<open>store.put\<close> of
  \<open>saveKnowledgeGraph\<close> on the plain \<open>{data}\<close> object.  With two notes under \<open>notes\<close> in
  localStorage, \<open>exportData\<close> returns both, \<open>clearAllData\<close> empties the collection, and
  \<open>importData\<close> rejects with a TypeError at the first \<open>saveNote\<close>: the notes are not
  there afterwards.
\<close>

theorem round_trip_rejects_on_fallback:
  "fst (exportData fallback_state) =
     Inr (Obj [(''version'', Str version_1_0), (''exportDate'', Str (sample_clock 0)),
               (''data'', Obj [(''notes'', Arr []), (''tasks'', Arr []),
                               (''knowledgeGraph'', empty_graph), (''settings'', Arr [])])])
   \<and> fst (clearAllData (snd (exportData fallback_state))) = Inr Undefined
   \<and> fst (round_trip fallback_state) = Inl TypeError
   \<and> stored ''notes'' two_notes_fallback = Some [alpha_note, beta_note]
   \<and> map_sum (\<lambda>e. e) (\<lambda>doc. get_prop (get_prop doc ''data'') ''notes'')
        (fst (exportData two_notes_fallback)) = Inr (Arr [alpha_note, beta_note])
   \<and> fst (clearAllData (snd (exportData two_notes_fallback))) = Inr Undefined
   \<and> stored ''notes'' (snd (clearAllData (snd (exportData two_notes_fallback)))) = Some []
   \<and> fst (round_trip two_notes_fallback) = Inl TypeError
   \<and> stored ''notes'' (snd (round_trip two_notes_fallback)) = Some []"
  by (simp add: round_trip_def exportData_def clearAllData_def clearStore_def importData_def
      getNotes_def getTasks_def getKnowledgeGraph_def getAllSettings_def
      saveNote_def saveKnowledgeGraph_def for_each_if_array_def
      performTransaction_def performLocalStorageOperation_def parse_item_def stringify_def
      js_find_def js_or_def or_else_def toISOString_now_def generateId_def
      await_def resolve_def reject_def stored_def
      fallback_state_def two_notes_fallback_def alpha_note_def beta_note_def empty_graph_def
      prop_is_def noteData_def graphRecord_def
      split: prod.splits)

end
